theory Spec2Isabelle
  imports Complex_Main
begin

section \<open>Data model of the Data Hub\<close>

text \<open>
  The two source files are the client I/O service (\<^verbatim>\<open>io_*\<close>, with the static helpers
  \<^verbatim>\<open>GetClientNamespace\<close>, \<^verbatim>\<open>FindResource\<close> and \<^verbatim>\<open>GetCurrentValue\<close>) and the query
  service (\<^verbatim>\<open>query_*\<close>, with the static helper \<^verbatim>\<open>FindObservation\<close>). Both sit on top
  of the resource tree (\<^verbatim>\<open>resTree_*\<close>) and the data samples (\<^verbatim>\<open>dataSample_*\<close>), whose
  implementation is not among the sources; those parts are modelled from the
  specification and marked as such.
\<close>

subsection \<open>Result codes and enumerations\<close>

datatype le_result =
    LE_OK
  | LE_NOT_FOUND
  | LE_OVERFLOW
  | LE_UNAVAILABLE
  | LE_UNSUPPORTED
  | LE_FORMAT_ERROR
  | LE_DUPLICATE
  | LE_NO_MEMORY
  | LE_FAULT

datatype io_DataType =
    IO_DATA_TYPE_TRIGGER
  | IO_DATA_TYPE_BOOLEAN
  | IO_DATA_TYPE_NUMERIC
  | IO_DATA_TYPE_STRING
  | IO_DATA_TYPE_JSON

datatype admin_EntryType =
    ADMIN_ENTRY_TYPE_NONE
  | ADMIN_ENTRY_TYPE_NAMESPACE
  | ADMIN_ENTRY_TYPE_PLACEHOLDER
  | ADMIN_ENTRY_TYPE_INPUT
  | ADMIN_ENTRY_TYPE_OUTPUT
  | ADMIN_ENTRY_TYPE_OBSERVATION

text \<open>
  A call that does not come back with a result: \<^verbatim>\<open>LE_FATAL\<close> aborts the process, and
  reading a member of a sample's payload that the sample does not hold has no defined
  result in C.
\<close>

datatype fault = FatalError | WrongPayload

subsection \<open>Doubles\<close>

text \<open>
  A C \<^verbatim>\<open>double\<close> as far as the two services look at it: they compare a double with
  zero and hand it on, and they return \<^verbatim>\<open>NAN\<close>. A finite double is represented by the
  real number it denotes (\<open>-0.0\<close> and \<open>0.0\<close> compare equal in C and are the same
  value here). The two services do no arithmetic on doubles; the buffer read of the
  resource tree subtracts a time span from the clock, and the rounding of that
  subtraction is not modelled.
\<close>

datatype double = NaN | NegInf | Finite real | PosInf

text \<open>The C comparison \<^verbatim>\<open>a < b\<close>: false as soon as an operand is NaN.\<close>

fun double_less :: "double \<Rightarrow> double \<Rightarrow> bool" where
  "double_less NaN _ = False"
| "double_less _ NaN = False"
| "double_less NegInf NegInf = False"
| "double_less NegInf _ = True"
| "double_less (Finite a) (Finite b) = (a < b)"
| "double_less (Finite a) PosInf = True"
| "double_less (Finite a) NegInf = False"
| "double_less PosInf _ = False"

text \<open>The C subtraction \<^verbatim>\<open>a - b\<close> on the special values, exact on finite ones.\<close>

fun double_minus :: "double \<Rightarrow> double \<Rightarrow> double" where
  "double_minus NaN _ = NaN"
| "double_minus _ NaN = NaN"
| "double_minus (Finite a) (Finite b) = Finite (a - b)"
| "double_minus (Finite a) PosInf = NegInf"
| "double_minus (Finite a) NegInf = PosInf"
| "double_minus PosInf PosInf = NaN"
| "double_minus PosInf _ = PosInf"
| "double_minus NegInf NegInf = NaN"
| "double_minus NegInf _ = NegInf"

text \<open>The C comparison \<^verbatim>\<open>a == 0\<close>.\<close>

definition double_is_zero :: "double \<Rightarrow> bool" where
  "double_is_zero d = (d = Finite 0)"

subsection \<open>Data samples\<close>

text \<open>
  Modelled from the spec: the data sample (the sample module \<^verbatim>\<open>dataSample_*\<close> is not
  among the sources). A sample is a timestamp and a kind-discriminated payload: none, a
  bool, a double, a text or a JSON text.
\<close>

datatype payload =
    VTrigger
  | VBoolean bool
  | VNumeric double
  | VString string
  | VJson string

record dataSample =
  timestamp :: double
  payload :: payload

text \<open>
  Modelled from the spec: the constructors of \<^verbatim>\<open>dataSample_*\<close>, one per kind, and
  the timestamp accessor.
\<close>

definition dataSample_CreateTrigger :: "double \<Rightarrow> dataSample" where
  "dataSample_CreateTrigger ts = \<lparr>timestamp = ts, payload = VTrigger\<rparr>"

definition dataSample_CreateBoolean :: "double \<Rightarrow> bool \<Rightarrow> dataSample" where
  "dataSample_CreateBoolean ts v = \<lparr>timestamp = ts, payload = VBoolean v\<rparr>"

definition dataSample_CreateNumeric :: "double \<Rightarrow> double \<Rightarrow> dataSample" where
  "dataSample_CreateNumeric ts v = \<lparr>timestamp = ts, payload = VNumeric v\<rparr>"

definition dataSample_CreateString :: "double \<Rightarrow> string \<Rightarrow> dataSample" where
  "dataSample_CreateString ts v = \<lparr>timestamp = ts, payload = VString v\<rparr>"

definition dataSample_CreateJson :: "double \<Rightarrow> string \<Rightarrow> dataSample" where
  "dataSample_CreateJson ts v = \<lparr>timestamp = ts, payload = VJson v\<rparr>"

definition dataSample_GetTimestamp :: "dataSample \<Rightarrow> double" where
  "dataSample_GetTimestamp s = timestamp s"

text \<open>
  Modelled from the spec: the payload accessors of \<^verbatim>\<open>dataSample_*\<close>. They require the
  caller to know the kind: on a sample of another kind they have no result (\<open>None\<close>).
\<close>

definition dataSample_GetBoolean :: "dataSample \<Rightarrow> bool option" where
  "dataSample_GetBoolean s = (case payload s of VBoolean b \<Rightarrow> Some b | _ \<Rightarrow> None)"

definition dataSample_GetNumeric :: "dataSample \<Rightarrow> double option" where
  "dataSample_GetNumeric s = (case payload s of VNumeric d \<Rightarrow> Some d | _ \<Rightarrow> None)"

definition dataSample_GetString :: "dataSample \<Rightarrow> string option" where
  "dataSample_GetString s = (case payload s of VString t \<Rightarrow> Some t | _ \<Rightarrow> None)"

definition dataSample_GetJson :: "dataSample \<Rightarrow> string option" where
  "dataSample_GetJson s = (case payload s of VJson t \<Rightarrow> Some t | _ \<Rightarrow> None)"

text \<open>The kind a payload belongs to.\<close>

fun payloadKind :: "payload \<Rightarrow> io_DataType" where
  "payloadKind VTrigger = IO_DATA_TYPE_TRIGGER"
| "payloadKind (VBoolean _) = IO_DATA_TYPE_BOOLEAN"
| "payloadKind (VNumeric _) = IO_DATA_TYPE_NUMERIC"
| "payloadKind (VString _) = IO_DATA_TYPE_STRING"
| "payloadKind (VJson _) = IO_DATA_TYPE_JSON"

subsection \<open>Resource tree\<close>

text \<open>
  Modelled from the spec: the resource tree (the module \<^verbatim>\<open>resTree_*\<close> is not among
  the sources). An entry is identified by its absolute path, the list of its segments
  (the root is \<open>[]\<close>); an entry reference \<^verbatim>\<open>resTree_EntryRef_t\<close> is such a path, and
  \<^verbatim>\<open>NULL\<close> is \<open>None\<close>. An entry has a role, and the resource state: data type, units,
  current value, write-once default, mandatory flag and, for an Observation, the buffer
  with its size cap. The tree maps every path to an entry record; a path at which there
  is no entry carries the entry type \<^verbatim>\<open>ADMIN_ENTRY_TYPE_NONE\<close>.
\<close>

type_synonym path = "string list"

record entry =
  entryType :: admin_EntryType
  dataType :: io_DataType
  units :: string
  currentValue :: "dataSample option"
  defaultValue :: "dataSample option"
  mandatory :: bool
  samples :: "dataSample list"
  maxCount :: nat

type_synonym resTree = "path \<Rightarrow> entry"

text \<open>
  Modelled from the spec: what is at a path with no entry, a freshly created entry of a
  given role (it has no current value and no default; an Output is mandatory), and
  \<^verbatim>\<open>resTree_GetRoot\<close>.
\<close>

definition noEntry :: entry where
  "noEntry = \<lparr>entryType = ADMIN_ENTRY_TYPE_NONE, dataType = IO_DATA_TYPE_TRIGGER, units = [],
     currentValue = None, defaultValue = None, mandatory = False, samples = [],
     maxCount = 0\<rparr>"

definition newEntry :: "admin_EntryType \<Rightarrow> io_DataType \<Rightarrow> string \<Rightarrow> entry" where
  "newEntry r dt u = \<lparr>entryType = r, dataType = dt, units = u,
     currentValue = None, defaultValue = None,
     mandatory = (r = ADMIN_ENTRY_TYPE_OUTPUT), samples = [], maxCount = 0\<rparr>"

definition resTree_GetRoot :: "path option" where
  "resTree_GetRoot = Some []"

text \<open>
  Modelled from the spec: the path grammar. \<^verbatim>\<open>/\<close> separates segments, a segment is not
  empty. A leading \<^verbatim>\<open>/\<close> is skipped (the services pass client paths such as \<^verbatim>\<open>/x\<close>
  and absolute paths such as \<^verbatim>\<open>/obs/o\<close> to the same lookup). A malformed path has no
  segments list.
\<close>

fun splitSegs :: "string \<Rightarrow> string \<Rightarrow> string list" where
  "splitSegs cur [] = [cur]"
| "splitSegs cur (c # cs) =
     (if c = CHR ''/'' then cur # splitSegs [] cs else splitSegs (cur @ [c]) cs)"

definition parsePath :: "string \<Rightarrow> string list option" where
  "parsePath p =
     (let segs = splitSegs [] (case p of [] \<Rightarrow> [] | c # cs \<Rightarrow> if c = CHR ''/'' then cs else p)
      in if [] \<in> set segs then None else Some segs)"

text \<open>
  Modelled from the spec: the getters \<^verbatim>\<open>resTree_GetEntryType\<close> (the I/O service calls
  it on \<^verbatim>\<open>NULL\<close> too, which has the type of no entry), \<^verbatim>\<open>resTree_GetDataType\<close> and
  \<^verbatim>\<open>resTree_GetUnits\<close>.
\<close>

definition resTree_GetEntryType :: "resTree \<Rightarrow> path option \<Rightarrow> admin_EntryType" where
  "resTree_GetEntryType t entryRef =
     (case entryRef of None \<Rightarrow> ADMIN_ENTRY_TYPE_NONE | Some p \<Rightarrow> entryType (t p))"

definition resTree_GetDataType :: "resTree \<Rightarrow> path \<Rightarrow> io_DataType" where
  "resTree_GetDataType t p = dataType (t p)"

definition resTree_GetUnits :: "resTree \<Rightarrow> path \<Rightarrow> string" where
  "resTree_GetUnits t p = units (t p)"

text \<open>
  Modelled from the spec: \<^verbatim>\<open>resTree_IsResource\<close>. A path that refers to a namespace is
  not a resource (it cannot have a data type).
\<close>

definition resTree_IsResource :: "resTree \<Rightarrow> path \<Rightarrow> bool" where
  "resTree_IsResource t p =
     (entryType (t p) \<noteq> ADMIN_ENTRY_TYPE_NAMESPACE \<and> entryType (t p) \<noteq> ADMIN_ENTRY_TYPE_NONE)"

text \<open>
  Modelled from the spec: \<^verbatim>\<open>resTree_FindEntry\<close>, the spec's \<open>findEntry(base, path)\<close>:
  the entry or not-found; a malformed path is not found.
\<close>

definition resTree_FindEntry :: "resTree \<Rightarrow> path option \<Rightarrow> string \<Rightarrow> path option" where
  "resTree_FindEntry t base p =
     (case base of
        None \<Rightarrow> None
      | Some b \<Rightarrow>
          (case parsePath p of
             None \<Rightarrow> None
           | Some segs \<Rightarrow>
               if entryType (t (b @ segs)) = ADMIN_ENTRY_TYPE_NONE then None
               else Some (b @ segs)))"

text \<open>
  Modelled from the spec: \<^verbatim>\<open>resTree_FindEntryAtAbsolutePath\<close>, the spec's
  \<open>findAtAbsolute(path)\<close>: a path that is not absolute is not found.
\<close>

definition resTree_FindEntryAtAbsolutePath :: "resTree \<Rightarrow> string \<Rightarrow> path option" where
  "resTree_FindEntryAtAbsolutePath t p =
     (case p of
        [] \<Rightarrow> None
      | c # cs \<Rightarrow> if c = CHR ''/'' then resTree_FindEntry t resTree_GetRoot p else None)"

text \<open>
  Modelled from the spec: \<^verbatim>\<open>resTree_GetEntry\<close>, the spec's \<open>getEntry(base, path)\<close>. It
  materialises the missing nodes on the way, each as a Namespace (the client namespace
  binding of section 4.5, which creates missing namespaces, is its only use here), and
  leaves existing entries as they are. A malformed path names no entry (the name of an
  entry is a non-empty segment): nothing is created and the result is \<^verbatim>\<open>NULL\<close>, as it
  is without a base entry.
\<close>

fun materialise :: "resTree \<Rightarrow> path \<Rightarrow> string list \<Rightarrow> resTree" where
  "materialise t b [] = t"
| "materialise t b (s # ss) =
     materialise
       (if entryType (t (b @ [s])) = ADMIN_ENTRY_TYPE_NONE
        then t(b @ [s] := newEntry ADMIN_ENTRY_TYPE_NAMESPACE IO_DATA_TYPE_TRIGGER [])
        else t)
       (b @ [s]) ss"

definition resTree_GetEntry :: "resTree \<Rightarrow> path option \<Rightarrow> string \<Rightarrow> resTree \<times> path option" where
  "resTree_GetEntry t base p =
     (case base of
        None \<Rightarrow> (t, None)
      | Some b \<Rightarrow>
          (case parsePath p of
             None \<Rightarrow> (t, None)
           | Some segs \<Rightarrow> (materialise t b segs, Some (b @ segs))))"

text \<open>
  Modelled from the spec: \<^verbatim>\<open>resTree_GetInput\<close> and \<^verbatim>\<open>resTree_GetOutput\<close>, the spec's
  \<open>getInput(base, path, dt, units)\<close> and \<open>getOutput\<close>. A Namespace or Placeholder
  entry (or a missing one, materialised first) takes the role in place; an existing
  entry of the same role and matching (dt, units) is an idempotent success; a
  conflicting role or mismatched (dt, units) fails and leaves the tree unchanged. The C
  functions report the failure as \<^verbatim>\<open>NULL\<close>.
\<close>

definition getResource ::
  "admin_EntryType \<Rightarrow> resTree \<Rightarrow> path option \<Rightarrow> string \<Rightarrow> io_DataType \<Rightarrow> string
     \<Rightarrow> resTree \<times> path option" where
  "getResource role t base p dt u =
     (case resTree_GetEntry t base p of
        (t1, None) \<Rightarrow> (t, None)
      | (t1, Some k) \<Rightarrow>
          if entryType (t1 k) = ADMIN_ENTRY_TYPE_NAMESPACE
             \<or> entryType (t1 k) = ADMIN_ENTRY_TYPE_PLACEHOLDER
          then (t1(k := newEntry role dt u), Some k)
          else if entryType (t1 k) = role \<and> dataType (t1 k) = dt \<and> units (t1 k) = u
          then (t1, Some k)
          else (t, None))"

definition resTree_GetInput ::
  "resTree \<Rightarrow> path option \<Rightarrow> string \<Rightarrow> io_DataType \<Rightarrow> string \<Rightarrow> resTree \<times> path option" where
  "resTree_GetInput = getResource ADMIN_ENTRY_TYPE_INPUT"

definition resTree_GetOutput ::
  "resTree \<Rightarrow> path option \<Rightarrow> string \<Rightarrow> io_DataType \<Rightarrow> string \<Rightarrow> resTree \<times> path option" where
  "resTree_GetOutput = getResource ADMIN_ENTRY_TYPE_OUTPUT"

text \<open>
  Modelled from the spec: \<^verbatim>\<open>resTree_GetCurrentValue\<close>, the spec's
  \<open>getCurrentValue(entry)\<close>: the current sample; if there is none but a default is
  set, the default; otherwise nothing. And \<^verbatim>\<open>resTree_HasDefault\<close>.
\<close>

definition resTree_GetCurrentValue :: "resTree \<Rightarrow> path \<Rightarrow> dataSample option" where
  "resTree_GetCurrentValue t p =
     (case currentValue (t p) of Some s \<Rightarrow> Some s | None \<Rightarrow> defaultValue (t p))"

definition resTree_HasDefault :: "resTree \<Rightarrow> path \<Rightarrow> bool" where
  "resTree_HasDefault t p = (defaultValue (t p) \<noteq> None)"

text \<open>
  Modelled from the spec: \<^verbatim>\<open>resTree_SetDefault\<close>. The default is write-once: setting it
  again is a silent no-op.
\<close>

definition resTree_SetDefault :: "resTree \<Rightarrow> path \<Rightarrow> io_DataType \<Rightarrow> dataSample \<Rightarrow> resTree" where
  "resTree_SetDefault t p kind s =
     (if defaultValue (t p) = None then t(p := (t p)\<lparr>defaultValue := Some s\<rparr>) else t)"

subsection \<open>The hub as one client session sees it\<close>

text \<open>
  The state the two services read and write: the resource tree; the IPC session of the
  calling client (its context pointer, where the client namespace is cached, and what
  the framework answers when asked for the client's process and application name);
  whether the client has been killed (\<^verbatim>\<open>LE_KILL_CLIENT\<close>); the wall clock; and the
  buffer reads that were carried out, each with the arguments it was given and the
  samples it writes to its output file.
\<close>

record readRequest =
  readEntry :: path
  readStartAfter :: double
  readOutputFile :: int
  readHandler :: nat
  readContext :: nat
  readSamples :: "dataSample list"

record hub =
  tree :: resTree
  sessionContextPtr :: "path option"
  clientProcessId :: "nat option"
  clientAppName :: "string option"
  clientKilled :: bool
  clockNow :: double
  bufferReads :: "readRequest list"

text \<open>
  Modelled from the spec: the push pipeline \<^verbatim>\<open>resTree_Push\<close> (not among the sources),
  as far as it changes the entry pushed to. Timestamp normalisation: a zero timestamp is
  replaced by the wall clock. Type gate: an Input or Output accepts only its own data
  type, otherwise the push is rejected and the caller is a contract violator; an
  Observation or Placeholder accepts any kind and takes it as its data type. Commit:
  the sample becomes the current value and is appended to the buffer of an
  Observation, the oldest samples being evicted beyond the size cap. An entry of another
  kind inside the pipeline is a fatal error. The time-window cap, the filter hook, the
  fan-out to push handlers and the routing to derived observations are not modelled.
\<close>

definition stampSample :: "double \<Rightarrow> dataSample \<Rightarrow> dataSample" where
  "stampSample now s = (if double_is_zero (timestamp s) then s\<lparr>timestamp := now\<rparr> else s)"

definition evictOldest :: "nat \<Rightarrow> dataSample list \<Rightarrow> dataSample list" where
  "evictOldest cap xs = drop (length xs - cap) xs"

definition resTree_Push :: "hub \<Rightarrow> path \<Rightarrow> io_DataType \<Rightarrow> dataSample \<Rightarrow> fault + hub" where
  "resTree_Push st p kind s =
     (let e = tree st p; s' = stampSample (clockNow st) s in
      if entryType e = ADMIN_ENTRY_TYPE_INPUT \<or> entryType e = ADMIN_ENTRY_TYPE_OUTPUT then
        (if kind \<noteq> dataType e then Inr (st\<lparr>clientKilled := True\<rparr>)
         else Inr (st\<lparr>tree := (tree st)(p := e\<lparr>currentValue := Some s'\<rparr>)\<rparr>))
      else if entryType e = ADMIN_ENTRY_TYPE_OBSERVATION then
        Inr (st\<lparr>tree := (tree st)(p := e\<lparr>dataType := kind, currentValue := Some s',
               samples := evictOldest (maxCount e) (samples e @ [s'])\<rparr>)\<rparr>)
      else if entryType e = ADMIN_ENTRY_TYPE_PLACEHOLDER then
        Inr (st\<lparr>tree := (tree st)(p := e\<lparr>dataType := kind, currentValue := Some s'\<rparr>)\<rparr>)
      else Inl FatalError)"

text \<open>
  Modelled from the spec: \<^verbatim>\<open>resTree_ReadBufferJson\<close> (not among the sources), the
  spec's \<open>readBufferJson(entry, startAfter, sink, onCompletion, ctx)\<close> of section 4.4.
  A \<open>startAfter\<close> of zero or negative is a caller-contract violation: the read is
  rejected, the client is killed and nothing is written. NaN reads the whole buffer. A
  positive \<open>startAfter\<close> below \<^verbatim>\<open>SECONDS_IN_30_YEARS\<close> is the last so many seconds
  relative to now, one from \<^verbatim>\<open>SECONDS_IN_30_YEARS\<close> on is absolute seconds since the
  Epoch; the samples from the resolved start time on are written, in buffer order. The
  spec names the constant without its value: it is taken as the seconds from the Epoch
  to the year 2000, and no property below depends on it. The model records the samples
  the read writes to the sink; the JSON text of the array is not modelled.
\<close>

definition SECONDS_IN_30_YEARS :: real where
  "SECONDS_IN_30_YEARS = 946684800"

definition resolveStartTime :: "double \<Rightarrow> double \<Rightarrow> double" where
  "resolveStartTime now startAfter =
     (if double_less startAfter (Finite SECONDS_IN_30_YEARS) then double_minus now startAfter
      else startAfter)"

definition resTree_ReadBufferJson ::
  "hub \<Rightarrow> path \<Rightarrow> double \<Rightarrow> int \<Rightarrow> nat \<Rightarrow> nat \<Rightarrow> hub" where
  "resTree_ReadBufferJson st entryRef startAfter outputFile handlerPtr contextPtr =
     (if startAfter = NaN then
        st\<lparr>bufferReads := bufferReads st @
          [\<lparr>readEntry = entryRef, readStartAfter = startAfter, readOutputFile = outputFile,
            readHandler = handlerPtr, readContext = contextPtr,
            readSamples = samples (tree st entryRef)\<rparr>]\<rparr>
      else if \<not> double_less (Finite 0) startAfter then st\<lparr>clientKilled := True\<rparr>
      else
        st\<lparr>bufferReads := bufferReads st @
          [\<lparr>readEntry = entryRef, readStartAfter = startAfter, readOutputFile = outputFile,
            readHandler = handlerPtr, readContext = contextPtr,
            readSamples =
              filter (\<lambda>s. \<not> double_less (timestamp s)
                                (resolveStartTime (clockNow st) startAfter))
                (samples (tree st entryRef))\<rparr>]\<rparr>)"

subsection \<open>Framework string copy and the JSON projection\<close>

text \<open>
  \<^verbatim>\<open>le_utf8_Copy(dest, src, destSize, NULL)\<close> is a function of the application
  framework, not of the Data Hub: the whole string if it fits with its terminator
  (\<^verbatim>\<open>LE_OK\<close>), otherwise as many whole UTF-8 characters as fit (\<^verbatim>\<open>LE_OVERFLOW\<close>). A
  buffer of size 0 has no room for the terminator and is outside the function's
  contract; the model writes nothing there, and no property below is stated for it.
\<close>

definition utf8_is_continuation :: "char \<Rightarrow> bool" where
  "utf8_is_continuation c = (128 \<le> (of_char c :: nat) \<and> (of_char c :: nat) < 192)"

definition utf8_truncate :: "nat \<Rightarrow> string \<Rightarrow> string" where
  "utf8_truncate n s =
     (if n < length s \<and> utf8_is_continuation (s ! n)
      then rev (tl (dropWhile utf8_is_continuation (rev (take n s))))
      else take n s)"

definition le_utf8_Copy :: "string \<Rightarrow> string \<Rightarrow> nat \<Rightarrow> le_result \<times> string" where
  "le_utf8_Copy dest src destSize =
     (if destSize = 0 then (LE_OVERFLOW, dest)
      else if length src < destSize then (LE_OK, src)
      else (LE_OVERFLOW, utf8_truncate (destSize - 1) src))"

text \<open>
  Modelled from the spec: \<^verbatim>\<open>dataSample_ConvertToJson\<close> (not among the sources). The JSON
  projection of a sample read as the given data type: a Trigger is \<^verbatim>\<open>null\<close>, a Boolean
  \<^verbatim>\<open>true\<close> or \<^verbatim>\<open>false\<close>, a Numeric the shortest round-trip text of the double (the
  formatting of doubles is a parameter \<open>fmt\<close>), a String a JSON-escaped string literal, a
  Json value is emitted verbatim. The text goes to the caller's buffer as a string copy
  does: \<^verbatim>\<open>LE_OVERFLOW\<close> if the buffer is too small.
\<close>

definition hexDigit :: "nat \<Rightarrow> char" where
  "hexDigit n = ''0123456789abcdef'' ! (n mod 16)"

definition jsonEscapeChar :: "char \<Rightarrow> string" where
  "jsonEscapeChar c =
     (if c = CHR 0x22 then [CHR 0x5C, CHR 0x22]
      else if c = CHR 0x5C then [CHR 0x5C, CHR 0x5C]
      else if (of_char c :: nat) < 32
      then [CHR 0x5C, CHR ''u'', CHR ''0'', CHR ''0'',
            hexDigit (of_char c div 16), hexDigit (of_char c)]
      else [c])"

definition jsonEscape :: "string \<Rightarrow> string" where
  "jsonEscape s = CHR 0x22 # concat (map jsonEscapeChar s) @ [CHR 0x22]"

definition jsonProjection :: "(double \<Rightarrow> string) \<Rightarrow> io_DataType \<Rightarrow> dataSample \<Rightarrow> string option" where
  "jsonProjection fmt dt s =
     (case dt of
        IO_DATA_TYPE_TRIGGER \<Rightarrow> Some ''null''
      | IO_DATA_TYPE_BOOLEAN \<Rightarrow>
          map_option (\<lambda>b. if b then ''true'' else ''false'') (dataSample_GetBoolean s)
      | IO_DATA_TYPE_NUMERIC \<Rightarrow> map_option fmt (dataSample_GetNumeric s)
      | IO_DATA_TYPE_STRING \<Rightarrow> map_option jsonEscape (dataSample_GetString s)
      | IO_DATA_TYPE_JSON \<Rightarrow> dataSample_GetJson s)"

definition dataSample_ConvertToJson ::
  "(double \<Rightarrow> string) \<Rightarrow> dataSample \<Rightarrow> io_DataType \<Rightarrow> string \<Rightarrow> nat
     \<Rightarrow> fault + (le_result \<times> string)" where
  "dataSample_ConvertToJson fmt s dt buf bufSize =
     (case jsonProjection fmt dt s of
        None \<Rightarrow> Inl WrongPayload
      | Some txt \<Rightarrow> Inr (le_utf8_Copy buf txt bufSize))"

section \<open>The I/O service\<close>

text \<open>
  \<^verbatim>\<open>GetClientNamespace\<close>: the namespace cached in the session context if there is
  one; otherwise the client's process and application name are asked for (the client is
  killed if either fails), the entries \<^verbatim>\<open>/app\<close> and \<^verbatim>\<open>/app/<name>\<close> are fetched and
  the result is stored in the session context.
\<close>

definition GetClientNamespace :: "hub \<Rightarrow> hub \<times> path option" where
  "GetClientNamespace st =
     (case sessionContextPtr st of
        Some nsRef \<Rightarrow> (st, Some nsRef)
      | None \<Rightarrow>
          (case clientProcessId st of
             None \<Rightarrow> (st\<lparr>clientKilled := True\<rparr>, None)
           | Some clientPid \<Rightarrow>
               (case clientAppName st of
                  None \<Rightarrow> (st\<lparr>clientKilled := True\<rparr>, None)
                | Some appName \<Rightarrow>
                    (let (t1, nsRef1) = resTree_GetEntry (tree st) resTree_GetRoot ''app'';
                         (t2, nsRef) = resTree_GetEntry t1 nsRef1 appName
                     in (st\<lparr>tree := t2, sessionContextPtr := nsRef\<rparr>, nsRef)))))"

text \<open>
  \<^verbatim>\<open>FindResource\<close>: the entry at the path within the client's namespace, \<^verbatim>\<open>NULL\<close>
  unless it is an Input or an Output.
\<close>

definition FindResource :: "hub \<Rightarrow> string \<Rightarrow> hub \<times> path option" where
  "FindResource st path =
     (let (st1, nsRef) = GetClientNamespace st;
          entryRef = (if nsRef \<noteq> None then resTree_FindEntry (tree st1) nsRef path else nsRef);
          entryType' = resTree_GetEntryType (tree st1) entryRef
      in if entryType' \<noteq> ADMIN_ENTRY_TYPE_INPUT \<and> entryType' \<noteq> ADMIN_ENTRY_TYPE_OUTPUT
         then (st1, None)
         else (st1, entryRef))"

definition io_CreateInput ::
  "hub \<Rightarrow> string \<Rightarrow> io_DataType \<Rightarrow> string \<Rightarrow> fault + (hub \<times> le_result)" where
  "io_CreateInput st path dt u =
     (let (st1, nsRef) = GetClientNamespace st;
          resRef = (if nsRef \<noteq> None then resTree_FindEntry (tree st1) nsRef path else None);
          create =
            (case resTree_GetInput (tree st1) nsRef path dt u of
               (t2, None) \<Rightarrow> Inr (st1\<lparr>clientKilled := True\<rparr>, LE_FAULT)
             | (t2, Some r) \<Rightarrow> Inr (st1\<lparr>tree := t2\<rparr>, LE_OK))
      in case resRef of
           None \<Rightarrow> create
         | Some r \<Rightarrow>
             (case resTree_GetEntryType (tree st1) resRef of
                ADMIN_ENTRY_TYPE_INPUT \<Rightarrow>
                  if resTree_GetDataType (tree st1) r \<noteq> dt \<or> u \<noteq> resTree_GetUnits (tree st1) r
                  then Inr (st1, LE_DUPLICATE)
                  else Inr (st1, LE_OK)
              | ADMIN_ENTRY_TYPE_OUTPUT \<Rightarrow> Inr (st1, LE_DUPLICATE)
              | ADMIN_ENTRY_TYPE_OBSERVATION \<Rightarrow> Inr (st1, LE_DUPLICATE)
              | ADMIN_ENTRY_TYPE_NAMESPACE \<Rightarrow> create
              | ADMIN_ENTRY_TYPE_PLACEHOLDER \<Rightarrow> create
              | ADMIN_ENTRY_TYPE_NONE \<Rightarrow> Inl FatalError))"

definition io_CreateOutput ::
  "hub \<Rightarrow> string \<Rightarrow> io_DataType \<Rightarrow> string \<Rightarrow> fault + (hub \<times> le_result)" where
  "io_CreateOutput st path dt u =
     (let (st1, nsRef) = GetClientNamespace st;
          resRef = (if nsRef \<noteq> None then resTree_FindEntry (tree st1) nsRef path else None);
          create =
            (case resTree_GetOutput (tree st1) nsRef path dt u of
               (t2, None) \<Rightarrow> Inr (st1\<lparr>clientKilled := True\<rparr>, LE_FAULT)
             | (t2, Some r) \<Rightarrow> Inr (st1\<lparr>tree := t2\<rparr>, LE_OK))
      in case resRef of
           None \<Rightarrow> create
         | Some r \<Rightarrow>
             (case resTree_GetEntryType (tree st1) resRef of
                ADMIN_ENTRY_TYPE_OUTPUT \<Rightarrow>
                  if resTree_GetDataType (tree st1) r \<noteq> dt \<or> u \<noteq> resTree_GetUnits (tree st1) r
                  then Inr (st1, LE_DUPLICATE)
                  else Inr (st1, LE_OK)
              | ADMIN_ENTRY_TYPE_INPUT \<Rightarrow> Inr (st1, LE_DUPLICATE)
              | ADMIN_ENTRY_TYPE_OBSERVATION \<Rightarrow> Inr (st1, LE_DUPLICATE)
              | ADMIN_ENTRY_TYPE_NAMESPACE \<Rightarrow> create
              | ADMIN_ENTRY_TYPE_PLACEHOLDER \<Rightarrow> create
              | ADMIN_ENTRY_TYPE_NONE \<Rightarrow> Inl FatalError))"

text \<open>
  \<^verbatim>\<open>io_DeleteResource\<close>. The deletion itself, \<^verbatim>\<open>resTree_DeleteIO\<close>, is not among the
  sources and is a parameter.
\<close>

definition io_DeleteResource :: "(resTree \<Rightarrow> path \<Rightarrow> resTree) \<Rightarrow> hub \<Rightarrow> string \<Rightarrow> hub" where
  "io_DeleteResource resTree_DeleteIO st path =
     (case FindResource st path of
        (st1, None) \<Rightarrow> st1
      | (st1, Some resRef) \<Rightarrow> st1\<lparr>tree := resTree_DeleteIO (tree st1) resRef\<rparr>)"

definition io_PushTrigger :: "hub \<Rightarrow> string \<Rightarrow> double \<Rightarrow> fault + hub" where
  "io_PushTrigger st path ts =
     (case FindResource st path of
        (st1, None) \<Rightarrow> Inr (st1\<lparr>clientKilled := True\<rparr>)
      | (st1, Some resRef) \<Rightarrow>
          (let sampleRef = dataSample_CreateTrigger ts
           in resTree_Push st1 resRef IO_DATA_TYPE_TRIGGER sampleRef))"

definition io_PushBoolean :: "hub \<Rightarrow> string \<Rightarrow> double \<Rightarrow> bool \<Rightarrow> fault + hub" where
  "io_PushBoolean st path ts v =
     (case FindResource st path of
        (st1, None) \<Rightarrow> Inr (st1\<lparr>clientKilled := True\<rparr>)
      | (st1, Some resRef) \<Rightarrow>
          (let sampleRef = dataSample_CreateBoolean ts v
           in resTree_Push st1 resRef IO_DATA_TYPE_BOOLEAN sampleRef))"

definition io_PushNumeric :: "hub \<Rightarrow> string \<Rightarrow> double \<Rightarrow> double \<Rightarrow> fault + hub" where
  "io_PushNumeric st path ts v =
     (case FindResource st path of
        (st1, None) \<Rightarrow> Inr (st1\<lparr>clientKilled := True\<rparr>)
      | (st1, Some resRef) \<Rightarrow>
          (let sampleRef = dataSample_CreateNumeric ts v
           in resTree_Push st1 resRef IO_DATA_TYPE_NUMERIC sampleRef))"

definition io_PushString :: "hub \<Rightarrow> string \<Rightarrow> double \<Rightarrow> string \<Rightarrow> fault + hub" where
  "io_PushString st path ts v =
     (case FindResource st path of
        (st1, None) \<Rightarrow> Inr (st1\<lparr>clientKilled := True\<rparr>)
      | (st1, Some resRef) \<Rightarrow>
          (let sampleRef = dataSample_CreateString ts v
           in resTree_Push st1 resRef IO_DATA_TYPE_STRING sampleRef))"

definition io_PushJson :: "hub \<Rightarrow> string \<Rightarrow> double \<Rightarrow> string \<Rightarrow> fault + hub" where
  "io_PushJson st path ts v =
     (case FindResource st path of
        (st1, None) \<Rightarrow> Inr (st1\<lparr>clientKilled := True\<rparr>)
      | (st1, Some resRef) \<Rightarrow>
          (let sampleRef = dataSample_CreateJson ts v
           in resTree_Push st1 resRef IO_DATA_TYPE_JSON sampleRef))"

text \<open>The default setters: ignored if the resource already has a default value.\<close>

definition io_SetBooleanDefault :: "hub \<Rightarrow> string \<Rightarrow> bool \<Rightarrow> hub" where
  "io_SetBooleanDefault st path v =
     (case FindResource st path of
        (st1, None) \<Rightarrow> st1\<lparr>clientKilled := True\<rparr>
      | (st1, Some resRef) \<Rightarrow>
          if resTree_GetDataType (tree st1) resRef \<noteq> IO_DATA_TYPE_BOOLEAN
          then st1\<lparr>clientKilled := True\<rparr>
          else if \<not> resTree_HasDefault (tree st1) resRef
          then (let sampleRef = dataSample_CreateBoolean (Finite 0) v
                in st1\<lparr>tree := resTree_SetDefault (tree st1) resRef IO_DATA_TYPE_BOOLEAN sampleRef\<rparr>)
          else st1)"

definition io_SetNumericDefault :: "hub \<Rightarrow> string \<Rightarrow> double \<Rightarrow> hub" where
  "io_SetNumericDefault st path v =
     (case FindResource st path of
        (st1, None) \<Rightarrow> st1\<lparr>clientKilled := True\<rparr>
      | (st1, Some resRef) \<Rightarrow>
          if resTree_GetDataType (tree st1) resRef \<noteq> IO_DATA_TYPE_NUMERIC
          then st1\<lparr>clientKilled := True\<rparr>
          else if \<not> resTree_HasDefault (tree st1) resRef
          then (let sampleRef = dataSample_CreateNumeric (Finite 0) v
                in st1\<lparr>tree := resTree_SetDefault (tree st1) resRef IO_DATA_TYPE_NUMERIC sampleRef\<rparr>)
          else st1)"

definition io_SetStringDefault :: "hub \<Rightarrow> string \<Rightarrow> string \<Rightarrow> hub" where
  "io_SetStringDefault st path v =
     (case FindResource st path of
        (st1, None) \<Rightarrow> st1\<lparr>clientKilled := True\<rparr>
      | (st1, Some resRef) \<Rightarrow>
          if resTree_GetDataType (tree st1) resRef \<noteq> IO_DATA_TYPE_STRING
          then st1\<lparr>clientKilled := True\<rparr>
          else if \<not> resTree_HasDefault (tree st1) resRef
          then (let sampleRef = dataSample_CreateString (Finite 0) v
                in st1\<lparr>tree := resTree_SetDefault (tree st1) resRef IO_DATA_TYPE_STRING sampleRef\<rparr>)
          else st1)"

definition io_SetJsonDefault :: "hub \<Rightarrow> string \<Rightarrow> string \<Rightarrow> hub" where
  "io_SetJsonDefault st path v =
     (case FindResource st path of
        (st1, None) \<Rightarrow> st1\<lparr>clientKilled := True\<rparr>
      | (st1, Some resRef) \<Rightarrow>
          if resTree_GetDataType (tree st1) resRef \<noteq> IO_DATA_TYPE_JSON
          then st1\<lparr>clientKilled := True\<rparr>
          else if \<not> resTree_HasDefault (tree st1) resRef
          then (let sampleRef = dataSample_CreateJson (Finite 0) v
                in st1\<lparr>tree := resTree_SetDefault (tree st1) resRef IO_DATA_TYPE_JSON sampleRef\<rparr>)
          else st1)"

text \<open>
  \<^verbatim>\<open>GetCurrentValue\<close>: the current value with a type check; kills the client if the
  type does not match.
\<close>

definition GetCurrentValue :: "hub \<Rightarrow> path \<Rightarrow> io_DataType \<Rightarrow> hub \<times> dataSample option" where
  "GetCurrentValue st resRef dt =
     (if resTree_GetDataType (tree st) resRef \<noteq> dt
      then (st\<lparr>clientKilled := True\<rparr>, None)
      else (st, resTree_GetCurrentValue (tree st) resRef))"

text \<open>
  The getters. An out-parameter is an argument holding what the caller's variable
  contains before the call and a component of the result holding what it contains
  after it: \<open>timestampPtr\<close> and \<open>valuePtr\<close> (or the text buffer \<open>buf\<close> of
  \<open>valueSize\<close> bytes).
\<close>

definition io_GetTimestamp :: "hub \<Rightarrow> string \<Rightarrow> double \<Rightarrow> hub \<times> le_result \<times> double" where
  "io_GetTimestamp st path timestampPtr =
     (case FindResource st path of
        (st1, None) \<Rightarrow> (st1, LE_NOT_FOUND, timestampPtr)
      | (st1, Some resRef) \<Rightarrow>
          (case resTree_GetCurrentValue (tree st1) resRef of
             None \<Rightarrow> (st1, LE_UNAVAILABLE, timestampPtr)
           | Some cur \<Rightarrow> (st1, LE_OK, dataSample_GetTimestamp cur)))"

definition io_GetBoolean ::
  "hub \<Rightarrow> string \<Rightarrow> double \<Rightarrow> bool \<Rightarrow> fault + (hub \<times> le_result \<times> double \<times> bool)" where
  "io_GetBoolean st path timestampPtr valuePtr =
     (case FindResource st path of
        (st1, None) \<Rightarrow> Inr (st1, LE_NOT_FOUND, timestampPtr, valuePtr)
      | (st1, Some resRef) \<Rightarrow>
          (case GetCurrentValue st1 resRef IO_DATA_TYPE_BOOLEAN of
             (st2, None) \<Rightarrow> Inr (st2, LE_UNAVAILABLE, timestampPtr, valuePtr)
           | (st2, Some cur) \<Rightarrow>
               (case dataSample_GetBoolean cur of
                  None \<Rightarrow> Inl WrongPayload
                | Some b \<Rightarrow> Inr (st2, LE_OK, timestampPtr, b))))"

definition io_GetNumeric ::
  "hub \<Rightarrow> string \<Rightarrow> double \<Rightarrow> double \<Rightarrow> fault + (hub \<times> le_result \<times> double \<times> double)" where
  "io_GetNumeric st path timestampPtr valuePtr =
     (case FindResource st path of
        (st1, None) \<Rightarrow> Inr (st1, LE_NOT_FOUND, timestampPtr, valuePtr)
      | (st1, Some resRef) \<Rightarrow>
          (case GetCurrentValue st1 resRef IO_DATA_TYPE_NUMERIC of
             (st2, None) \<Rightarrow> Inr (st2, LE_UNAVAILABLE, timestampPtr, valuePtr)
           | (st2, Some cur) \<Rightarrow>
               (case dataSample_GetNumeric cur of
                  None \<Rightarrow> Inl WrongPayload
                | Some d \<Rightarrow> Inr (st2, LE_OK, timestampPtr, d))))"

definition io_GetString ::
  "hub \<Rightarrow> string \<Rightarrow> double \<Rightarrow> string \<Rightarrow> nat \<Rightarrow> fault + (hub \<times> le_result \<times> double \<times> string)" where
  "io_GetString st path timestampPtr buf valueSize =
     (case FindResource st path of
        (st1, None) \<Rightarrow> Inr (st1, LE_NOT_FOUND, timestampPtr, buf)
      | (st1, Some resRef) \<Rightarrow>
          (case GetCurrentValue st1 resRef IO_DATA_TYPE_STRING of
             (st2, None) \<Rightarrow> Inr (st2, LE_UNAVAILABLE, timestampPtr, buf)
           | (st2, Some cur) \<Rightarrow>
               (case dataSample_GetString cur of
                  None \<Rightarrow> Inl WrongPayload
                | Some txt \<Rightarrow>
                    (case le_utf8_Copy buf txt valueSize of
                       (r, buf') \<Rightarrow> Inr (st2, r, timestampPtr, buf')))))"

definition io_GetJson ::
  "(double \<Rightarrow> string) \<Rightarrow> hub \<Rightarrow> string \<Rightarrow> double \<Rightarrow> string \<Rightarrow> nat
     \<Rightarrow> fault + (hub \<times> le_result \<times> double \<times> string)" where
  "io_GetJson fmt st path timestampPtr buf valueSize =
     (case FindResource st path of
        (st1, None) \<Rightarrow> Inr (st1, LE_NOT_FOUND, timestampPtr, buf)
      | (st1, Some resRef) \<Rightarrow>
          (case resTree_GetCurrentValue (tree st1) resRef of
             None \<Rightarrow> Inr (st1, LE_UNAVAILABLE, timestampPtr, buf)
           | Some cur \<Rightarrow>
               (case dataSample_ConvertToJson fmt cur (resTree_GetDataType (tree st1) resRef)
                       buf valueSize of
                  Inl f \<Rightarrow> Inl f
                | Inr (r, buf') \<Rightarrow> Inr (st1, r, timestampPtr, buf'))))"

section \<open>The query service\<close>

text \<open>
  \<^verbatim>\<open>FindObservation\<close>: a path beginning with \<^verbatim>\<open>/obs/\<close> is looked up from the root; any
  other absolute path is not found; a relative path is looked up under \<^verbatim>\<open>/obs\<close>.
  An entry that is not an Observation is not found.
\<close>

definition FindObservation :: "hub \<Rightarrow> string \<Rightarrow> path option" where
  "FindObservation st path =
     (let entry =
            (if take 5 path = ''/obs/'' then resTree_FindEntry (tree st) resTree_GetRoot path
             else if path \<noteq> [] \<and> hd path = CHR ''/'' then None
             else (let obsNamespace = resTree_FindEntry (tree st) resTree_GetRoot ''obs''
                   in if obsNamespace = None then None
                      else resTree_FindEntry (tree st) obsNamespace path))
      in if entry = None then None
         else if resTree_GetEntryType (tree st) entry \<noteq> ADMIN_ENTRY_TYPE_OBSERVATION then None
         else entry)"

definition query_ReadBufferJson ::
  "hub \<Rightarrow> string \<Rightarrow> double \<Rightarrow> int \<Rightarrow> nat \<Rightarrow> nat \<Rightarrow> hub \<times> le_result" where
  "query_ReadBufferJson st obsPath startAfter outputFile handlerPtr contextPtr =
     (case FindObservation st obsPath of
        None \<Rightarrow> (st, LE_NOT_FOUND)
      | Some entryRef \<Rightarrow>
          if double_less startAfter (Finite 0)
          then (st\<lparr>clientKilled := True\<rparr>, LE_OK)
          else (resTree_ReadBufferJson st entryRef startAfter outputFile handlerPtr contextPtr,
                LE_OK))"

definition query_GetMin :: "hub \<Rightarrow> string \<Rightarrow> double \<Rightarrow> double" where
  "query_GetMin st obsPath startTime =
     (let entryRef = FindObservation st obsPath
      in if entryRef = None then NaN else NaN)"

definition query_GetMax :: "hub \<Rightarrow> string \<Rightarrow> double \<Rightarrow> double" where
  "query_GetMax st obsPath startTime =
     (let entryRef = FindObservation st obsPath
      in if entryRef = None then NaN else NaN)"

definition query_GetMean :: "hub \<Rightarrow> string \<Rightarrow> double \<Rightarrow> double" where
  "query_GetMean st obsPath startTime =
     (let entryRef = FindObservation st obsPath
      in if entryRef = None then NaN else NaN)"

definition query_GetStdDev :: "hub \<Rightarrow> string \<Rightarrow> double \<Rightarrow> double" where
  "query_GetStdDev st obsPath startTime =
     (let entryRef = FindObservation st obsPath
      in if entryRef = None then NaN else NaN)"


definition query_GetNumeric ::
  "hub \<Rightarrow> string \<Rightarrow> double \<Rightarrow> double \<Rightarrow> fault + (le_result \<times> double \<times> double)" where
  "query_GetNumeric st path timestampPtr valuePtr =
     (case resTree_FindEntryAtAbsolutePath (tree st) path of
        None \<Rightarrow> Inr (LE_NOT_FOUND, timestampPtr, valuePtr)
      | Some entryRef \<Rightarrow>
          if \<not> resTree_IsResource (tree st) entryRef
          then Inr (LE_UNSUPPORTED, timestampPtr, valuePtr)
          else
            (case resTree_GetCurrentValue (tree st) entryRef of
               None \<Rightarrow> Inr (LE_UNAVAILABLE, timestampPtr, valuePtr)
             | Some sampleRef \<Rightarrow>
                 if resTree_GetDataType (tree st) entryRef \<noteq> IO_DATA_TYPE_NUMERIC
                 then Inr (LE_FORMAT_ERROR, timestampPtr, valuePtr)
                 else
                   (case dataSample_GetNumeric sampleRef of
                      None \<Rightarrow> Inl WrongPayload
                    | Some d \<Rightarrow> Inr (LE_OK, dataSample_GetTimestamp sampleRef, d))))"


definition query_GetJson ::
  "(double \<Rightarrow> string) \<Rightarrow> hub \<Rightarrow> string \<Rightarrow> double \<Rightarrow> string \<Rightarrow> nat
     \<Rightarrow> fault + (le_result \<times> double \<times> string)" where
  "query_GetJson fmt st path timestampPtr buf valueSize =
     (case resTree_FindEntryAtAbsolutePath (tree st) path of
        None \<Rightarrow> Inr (LE_NOT_FOUND, timestampPtr, buf)
      | Some entryRef \<Rightarrow>
          if \<not> resTree_IsResource (tree st) entryRef
          then Inr (LE_UNSUPPORTED, timestampPtr, buf)
          else
            (case resTree_GetCurrentValue (tree st) entryRef of
               None \<Rightarrow> Inr (LE_UNAVAILABLE, timestampPtr, buf)
             | Some sampleRef \<Rightarrow>
                 (let ts = dataSample_GetTimestamp sampleRef;
                      dt = resTree_GetDataType (tree st) entryRef
                  in if dt = IO_DATA_TYPE_JSON
                     then (case dataSample_GetJson sampleRef of
                             None \<Rightarrow> Inl WrongPayload
                           | Some txt \<Rightarrow>
                               (case le_utf8_Copy buf txt valueSize of
                                  (r, buf') \<Rightarrow> Inr (r, ts, buf')))
                     else (case dataSample_ConvertToJson fmt sampleRef dt buf valueSize of
                             Inl f \<Rightarrow> Inl f
                           | Inr (r, buf') \<Rightarrow> Inr (r, ts, buf')))))"

section \<open>Example states\<close>

text \<open>
  A hub with an Observation \<^verbatim>\<open>/obs/o\<close> that has buffered the numeric samples
  (1, 10), (2, 20), (3, 30), a Namespace \<^verbatim>\<open>/obs/group\<close>, and the client application
  \<^verbatim>\<open>sensor\<close> with a numeric Input \<^verbatim>\<open>temp\<close> (units degC), a Boolean Output
  \<^verbatim>\<open>valve\<close> and a Placeholder \<^verbatim>\<open>pending\<close>. In \<open>exampleHub\<close> the client's session is new; in \<open>boundHub\<close> its
  namespace is already cached in the session.
\<close>

definition exampleTree :: resTree where
  "exampleTree =
     (\<lambda>p. noEntry)
     ([''obs''] := newEntry ADMIN_ENTRY_TYPE_NAMESPACE IO_DATA_TYPE_TRIGGER [],
      [''obs'', ''o''] :=
        \<lparr>entryType = ADMIN_ENTRY_TYPE_OBSERVATION, dataType = IO_DATA_TYPE_NUMERIC, units = [],
         currentValue = Some (dataSample_CreateNumeric (Finite 3) (Finite 30)),
         defaultValue = None, mandatory = False,
         samples = [dataSample_CreateNumeric (Finite 1) (Finite 10),
                    dataSample_CreateNumeric (Finite 2) (Finite 20),
                    dataSample_CreateNumeric (Finite 3) (Finite 30)],
         maxCount = 3\<rparr>,
      [''obs'', ''group''] := newEntry ADMIN_ENTRY_TYPE_NAMESPACE IO_DATA_TYPE_TRIGGER [],
      [''app''] := newEntry ADMIN_ENTRY_TYPE_NAMESPACE IO_DATA_TYPE_TRIGGER [],
      [''app'', ''sensor''] := newEntry ADMIN_ENTRY_TYPE_NAMESPACE IO_DATA_TYPE_TRIGGER [],
      [''app'', ''sensor'', ''temp''] :=
        newEntry ADMIN_ENTRY_TYPE_INPUT IO_DATA_TYPE_NUMERIC ''degC'',
      [''app'', ''sensor'', ''valve''] :=
        newEntry ADMIN_ENTRY_TYPE_OUTPUT IO_DATA_TYPE_BOOLEAN [],
      [''app'', ''sensor'', ''pending''] :=
        newEntry ADMIN_ENTRY_TYPE_PLACEHOLDER IO_DATA_TYPE_TRIGGER [])"

definition exampleHub :: hub where
  "exampleHub =
     \<lparr>tree = exampleTree, sessionContextPtr = None, clientProcessId = Some 42,
      clientAppName = Some ''sensor'', clientKilled = False, clockNow = Finite 1700000000,
      bufferReads = []\<rparr>"


definition boundHub :: hub where
  "boundHub = exampleHub\<lparr>sessionContextPtr := Some [''app'', ''sensor'']\<rparr>"

text \<open>The hub after the numeric sample 21.5 with timestamp 1700000000 was pushed to \<^verbatim>\<open>temp\<close>.\<close>

definition tempSample :: dataSample where
  "tempSample = dataSample_CreateNumeric (Finite 1700000000) (Finite 21.5)"

definition pushedHub :: hub where
  "pushedHub =
     boundHub\<lparr>tree := (tree boundHub)
       ([''app'', ''sensor'', ''temp''] :=
          (newEntry ADMIN_ENTRY_TYPE_INPUT IO_DATA_TYPE_NUMERIC ''degC'')
            \<lparr>currentValue := Some tempSample\<rparr>)\<rparr>"


section \<open>Properties of the resource tree and the namespace binding\<close>

lemma entryType_newEntry [simp]: "entryType (newEntry r dt u) = r"
  by (simp add: newEntry_def)

lemma materialise_old_or_namespace:
  "materialise t b segs k = t k \<or>
   (entryType (t k) = ADMIN_ENTRY_TYPE_NONE \<and>
    materialise t b segs k = newEntry ADMIN_ENTRY_TYPE_NAMESPACE IO_DATA_TYPE_TRIGGER [])"
proof (induction segs arbitrary: t b)
  case Nil
  show ?case by simp
next
  case (Cons s ss)
  define N where "N = newEntry ADMIN_ENTRY_TYPE_NAMESPACE IO_DATA_TYPE_TRIGGER []"
  define t' where "t' = (if entryType (t (b @ [s])) = ADMIN_ENTRY_TYPE_NONE
        then t(b @ [s] := N) else t)"
  have N: "entryType N = ADMIN_ENTRY_TYPE_NAMESPACE"
    by (simp add: N_def)
  have step: "t' k = t k \<or> (entryType (t k) = ADMIN_ENTRY_TYPE_NONE \<and> t' k = N)"
    by (simp add: t'_def)
  have unfold: "materialise t b (s # ss) = materialise t' (b @ [s]) ss"
    by (simp add: t'_def N_def)
  have ih: "materialise t' (b @ [s]) ss k = t' k \<or>
      (entryType (t' k) = ADMIN_ENTRY_TYPE_NONE \<and> materialise t' (b @ [s]) ss k = N)"
    using Cons.IH [of t' "b @ [s]"] by (simp add: N_def)
  from ih show ?case
  proof
    assume "materialise t' (b @ [s]) ss k = t' k"
    with step unfold show ?thesis by (metis N_def)
  next
    assume a: "entryType (t' k) = ADMIN_ENTRY_TYPE_NONE \<and> materialise t' (b @ [s]) ss k = N"
    from step show ?thesis
    proof
      assume "t' k = t k"
      with a unfold show ?thesis by (simp add: N_def)
    next
      assume "entryType (t k) = ADMIN_ENTRY_TYPE_NONE \<and> t' k = N"
      with a N show ?thesis by simp
    qed
  qed
qed

lemma materialise_keeps_entries:
  "entryType (t k) \<noteq> ADMIN_ENTRY_TYPE_NONE \<Longrightarrow> materialise t b segs k = t k"
  using materialise_old_or_namespace [of t b segs k] by auto



lemma resTree_GetEntry_tree:
  "resTree_GetEntry t base p = (t1, r) \<Longrightarrow>
     t1 k = t k \<or> (entryType (t k) = ADMIN_ENTRY_TYPE_NONE \<and>
       t1 k = newEntry ADMIN_ENTRY_TYPE_NAMESPACE IO_DATA_TYPE_TRIGGER [])"
  using materialise_old_or_namespace
  by (auto simp: resTree_GetEntry_def split: option.splits)

lemma GetClientNamespace_fresh:
  "sessionContextPtr st = None \<Longrightarrow> clientProcessId st = Some pid \<Longrightarrow>
   clientAppName st = Some name \<Longrightarrow>
   resTree_GetEntry (tree st) resTree_GetRoot ''app'' = (t1, r1) \<Longrightarrow>
   resTree_GetEntry t1 r1 name = (t2, r2) \<Longrightarrow>
   GetClientNamespace st = (st\<lparr>tree := t2, sessionContextPtr := r2\<rparr>, r2)"
  by (simp add: GetClientNamespace_def)

lemma GetClientNamespace_failed:
  "sessionContextPtr st = None \<Longrightarrow> clientProcessId st = None \<or> clientAppName st = None \<Longrightarrow>
   GetClientNamespace st = (st\<lparr>clientKilled := True\<rparr>, None)"
  by (auto simp: GetClientNamespace_def split: option.splits)

lemma GetClientNamespace_bound:
  assumes "GetClientNamespace st = (st1, Some ns)"
  shows "sessionContextPtr st1 = Some ns"
proof (cases "sessionContextPtr st")
  case (Some a)
  with assms show ?thesis by (simp add: GetClientNamespace_def)
next
  case None
  show ?thesis
  proof (cases "clientProcessId st = None \<or> clientAppName st = None")
    case True
    from GetClientNamespace_failed [OF None True] assms show ?thesis by simp
  next
    case False
    then obtain pid name where pn: "clientProcessId st = Some pid" "clientAppName st = Some name"
      by auto
    obtain t1 r1 where g1: "resTree_GetEntry (tree st) resTree_GetRoot ''app'' = (t1, r1)"
      by (cases "resTree_GetEntry (tree st) resTree_GetRoot ''app''")
    obtain t2 r2 where g2: "resTree_GetEntry t1 r1 name = (t2, r2)"
      by (cases "resTree_GetEntry t1 r1 name")
    from GetClientNamespace_fresh [OF None pn g1 g2] assms
    have "st1 = st\<lparr>tree := t2, sessionContextPtr := r2\<rparr> \<and> r2 = Some ns"
      by (metis prod.inject)
    then show ?thesis by simp
  qed
qed

lemma GetClientNamespace_cached:
  "sessionContextPtr st = Some ns \<Longrightarrow> GetClientNamespace st = (st, Some ns)"
  by (simp add: GetClientNamespace_def)

lemma GetClientNamespace_tree:
  assumes "GetClientNamespace st = (st1, nsRef)"
  shows "tree st1 k = tree st k \<or> (entryType (tree st k) = ADMIN_ENTRY_TYPE_NONE \<and>
       tree st1 k = newEntry ADMIN_ENTRY_TYPE_NAMESPACE IO_DATA_TYPE_TRIGGER [])"
proof (cases "sessionContextPtr st")
  case (Some a)
  with assms show ?thesis by (simp add: GetClientNamespace_def)
next
  case None
  show ?thesis
  proof (cases "clientProcessId st = None \<or> clientAppName st = None")
    case True
    with None assms show ?thesis
      by (auto simp: GetClientNamespace_def split: option.splits)
  next
    case False
    then obtain pid name where pn: "clientProcessId st = Some pid" "clientAppName st = Some name"
      by auto
    obtain t1 r1 where g1: "resTree_GetEntry (tree st) resTree_GetRoot ''app'' = (t1, r1)"
      by (cases "resTree_GetEntry (tree st) resTree_GetRoot ''app''")
    obtain t2 r2 where g2: "resTree_GetEntry t1 r1 name = (t2, r2)"
      by (cases "resTree_GetEntry t1 r1 name")
    from None pn g1 g2 assms have st1: "tree st1 = t2"
      by (auto simp: GetClientNamespace_def)
    from resTree_GetEntry_tree [OF g1, of k] resTree_GetEntry_tree [OF g2, of k] st1
    show ?thesis by auto
  qed
qed

lemma GetClientNamespace_keeps_entries:
  "GetClientNamespace st = (st1, nsRef) \<Longrightarrow>
     entryType (tree st1 k) \<noteq> ADMIN_ENTRY_TYPE_NAMESPACE \<Longrightarrow> tree st1 k = tree st k"
  using GetClientNamespace_tree [of st st1 nsRef k] by auto

lemma GetClientNamespace_idem:
  "GetClientNamespace st = (st1, Some ns) \<Longrightarrow> GetClientNamespace st1 = (st1, Some ns)"
  by (rule GetClientNamespace_cached [OF GetClientNamespace_bound])

section \<open>Properties of the lookups of the two services\<close>

lemma FindResource_eq:
  "GetClientNamespace st = (st1, nsRef) \<Longrightarrow>
   FindResource st path =
     (st1, if resTree_GetEntryType (tree st1) (resTree_FindEntry (tree st1) nsRef path)
              \<noteq> ADMIN_ENTRY_TYPE_INPUT \<and>
              resTree_GetEntryType (tree st1) (resTree_FindEntry (tree st1) nsRef path)
              \<noteq> ADMIN_ENTRY_TYPE_OUTPUT
           then None else resTree_FindEntry (tree st1) nsRef path)"
  by (cases nsRef) (simp_all add: FindResource_def Let_def resTree_FindEntry_def
      resTree_GetEntryType_def)

lemma FindResource_Some:
  assumes "FindResource st path = (st1, Some p)"
  shows "\<exists>ns. GetClientNamespace st = (st1, Some ns) \<and>
     resTree_FindEntry (tree st1) (Some ns) path = Some p \<and>
     (entryType (tree st1 p) = ADMIN_ENTRY_TYPE_INPUT \<or>
      entryType (tree st1 p) = ADMIN_ENTRY_TYPE_OUTPUT)"
proof -
  obtain s nsRef where g: "GetClientNamespace st = (s, nsRef)"
    by (cases "GetClientNamespace st")
  from assms have s: "s = st1"
    unfolding FindResource_eq [OF g] by simp
  from assms have r: "resTree_FindEntry (tree st1) nsRef path = Some p"
    and ty: "resTree_GetEntryType (tree st1) (Some p) = ADMIN_ENTRY_TYPE_INPUT \<or>
      resTree_GetEntryType (tree st1) (Some p) = ADMIN_ENTRY_TYPE_OUTPUT"
    unfolding FindResource_eq [OF g] s by (auto split: if_splits)
  from r obtain ns where ns: "nsRef = Some ns"
    by (cases nsRef) (simp_all add: resTree_FindEntry_def)
  from g s ns r ty show ?thesis
    by (auto simp: resTree_GetEntryType_def)
qed

lemma FindResource_bound:
  assumes "sessionContextPtr st = Some ns"
    and "resTree_FindEntry (tree st) (Some ns) path = Some p"
    and "entryType (tree st p) = ADMIN_ENTRY_TYPE_INPUT \<or>
         entryType (tree st p) = ADMIN_ENTRY_TYPE_OUTPUT"
  shows "FindResource st path = (st, Some p)"
  unfolding FindResource_eq [OF GetClientNamespace_cached [OF assms(1)]]
  using assms(2,3) by (auto simp: resTree_GetEntryType_def)

lemma resTree_FindEntry_update:
  assumes "resTree_FindEntry t b path = Some p"
    and "entryType e \<noteq> ADMIN_ENTRY_TYPE_NONE"
  shows "resTree_FindEntry (t(p := e)) b path = Some p"
  using assms
  by (auto simp: resTree_FindEntry_def split: option.splits if_splits)

lemma set_default_state:
  assumes f: "FindResource st path = (st1, Some p)"
  shows "FindResource (st1\<lparr>tree := (tree st1)(p := (tree st1 p)\<lparr>defaultValue := Some s\<rparr>)\<rparr>) path
     = (st1\<lparr>tree := (tree st1)(p := (tree st1 p)\<lparr>defaultValue := Some s\<rparr>)\<rparr>, Some p)"
proof -
  from FindResource_Some [OF f] obtain ns where
    g: "GetClientNamespace st = (st1, Some ns)" and
    r: "resTree_FindEntry (tree st1) (Some ns) path = Some p" and
    ty: "entryType (tree st1 p) = ADMIN_ENTRY_TYPE_INPUT \<or>
      entryType (tree st1 p) = ADMIN_ENTRY_TYPE_OUTPUT"
    by blast
  let ?e = "(tree st1 p)\<lparr>defaultValue := Some s\<rparr>"
  let ?st2 = "st1\<lparr>tree := (tree st1)(p := ?e)\<rparr>"
  from ty have ne: "entryType ?e \<noteq> ADMIN_ENTRY_TYPE_NONE" by auto
  have b: "sessionContextPtr ?st2 = Some ns"
    using GetClientNamespace_bound [OF g] by simp
  have r2: "resTree_FindEntry (tree ?st2) (Some ns) path = Some p"
    using resTree_FindEntry_update [OF r ne] by simp
  have ty2: "entryType (tree ?st2 p) = ADMIN_ENTRY_TYPE_INPUT \<or>
      entryType (tree ?st2 p) = ADMIN_ENTRY_TYPE_OUTPUT"
    using ty by simp
  from FindResource_bound [OF b r2 ty2] show ?thesis .
qed

lemma FindObservation_is_Observation:
  "FindObservation st path = Some p \<Longrightarrow> entryType (tree st p) = ADMIN_ENTRY_TYPE_OBSERVATION"
  by (auto simp: FindObservation_def Let_def resTree_GetEntryType_def split: if_splits)

section \<open>Creating a resource\<close>







section \<open>Setting a default twice\<close>

lemma default_steps:
  assumes f: "FindResource st path = (st1, Some p)"
    and nodef: "defaultValue (tree st1 p) = None"
    and set1: "set1 = st1\<lparr>tree := resTree_SetDefault (tree st1) p kind s\<rparr>"
  shows "FindResource set1 path = (set1, Some p)"
    and "defaultValue (tree set1 p) = Some s"
    and "dataType (tree set1 p) = dataType (tree st1 p)"
    and "resTree_HasDefault (tree set1) p"
    and "currentValue (tree st1 p) = None \<Longrightarrow> resTree_GetCurrentValue (tree set1) p = Some s"
proof -
  have eq: "set1 = st1\<lparr>tree := (tree st1)(p := (tree st1 p)\<lparr>defaultValue := Some s\<rparr>)\<rparr>"
    unfolding set1 using nodef by (simp add: resTree_SetDefault_def)
  show "FindResource set1 path = (set1, Some p)"
    unfolding eq by (rule set_default_state [OF f])
  show "defaultValue (tree set1 p) = Some s"
    unfolding eq by simp
  show "dataType (tree set1 p) = dataType (tree st1 p)"
    unfolding eq by simp
  show "resTree_HasDefault (tree set1) p"
    unfolding eq by (simp add: resTree_HasDefault_def)
  show "resTree_GetCurrentValue (tree set1) p = Some s" if "currentValue (tree st1 p) = None"
    unfolding eq using that by (simp add: resTree_GetCurrentValue_def)
qed

lemma SetBooleanDefault_twice:
  assumes f: "FindResource st path = (st1, Some p)"
    and nodef: "defaultValue (tree st1 p) = None"
    and ty: "dataType (tree st1 p) = IO_DATA_TYPE_BOOLEAN"
  shows "let st2 = io_SetBooleanDefault st path b1; st3 = io_SetBooleanDefault st2 path b2 in
      st3 = st2 \<and>
      defaultValue (tree st3 p) = Some (dataSample_CreateBoolean (Finite 0) b1) \<and>
      (currentValue (tree st1 p) = None \<longrightarrow>
         resTree_GetCurrentValue (tree st3) p = Some (dataSample_CreateBoolean (Finite 0) b1) \<and>
         io_GetTimestamp st3 path ts0 = (st3, LE_OK, Finite 0) \<and>
         io_GetBoolean st3 path ts0 b0 = Inr (st3, LE_OK, ts0, b1))"
proof -
  define s where "s = dataSample_CreateBoolean (Finite 0) b1"
  define set1 where "set1 = st1\<lparr>tree := resTree_SetDefault (tree st1) p IO_DATA_TYPE_BOOLEAN s\<rparr>"
  note d = default_steps [OF f nodef set1_def]
  have one: "io_SetBooleanDefault st path b1 = set1"
    using f nodef ty
    by (simp add: io_SetBooleanDefault_def resTree_GetDataType_def resTree_HasDefault_def
        set1_def s_def)
  have two: "io_SetBooleanDefault set1 path b2 = set1"
    using d(1) d(3) d(4) ty by (simp add: io_SetBooleanDefault_def resTree_GetDataType_def)
  have ts: "io_GetTimestamp set1 path ts0 = (set1, LE_OK, Finite 0)"
    if "currentValue (tree st1 p) = None"
    using d(1) d(5) [OF that]
    by (simp add: io_GetTimestamp_def dataSample_GetTimestamp_def s_def
        dataSample_CreateBoolean_def)
  have gt: "io_GetBoolean set1 path ts0 b0 = Inr (set1, LE_OK, ts0, b1)"
    if "currentValue (tree st1 p) = None"
    using d(1) d(3) d(5) [OF that] ty
    by (simp add: io_GetBoolean_def GetCurrentValue_def resTree_GetDataType_def
        dataSample_GetBoolean_def s_def dataSample_CreateBoolean_def)
  from d(2) d(5) ts gt show ?thesis
    unfolding Let_def one two s_def by simp
qed

lemma SetNumericDefault_twice:
  assumes f: "FindResource st path = (st1, Some p)"
    and nodef: "defaultValue (tree st1 p) = None"
    and ty: "dataType (tree st1 p) = IO_DATA_TYPE_NUMERIC"
  shows "let st2 = io_SetNumericDefault st path d1; st3 = io_SetNumericDefault st2 path d2 in
      st3 = st2 \<and>
      defaultValue (tree st3 p) = Some (dataSample_CreateNumeric (Finite 0) d1) \<and>
      (currentValue (tree st1 p) = None \<longrightarrow>
         resTree_GetCurrentValue (tree st3) p = Some (dataSample_CreateNumeric (Finite 0) d1) \<and>
         io_GetTimestamp st3 path ts0 = (st3, LE_OK, Finite 0) \<and>
         io_GetNumeric st3 path ts0 d0 = Inr (st3, LE_OK, ts0, d1))"
proof -
  define s where "s = dataSample_CreateNumeric (Finite 0) d1"
  define set1 where "set1 = st1\<lparr>tree := resTree_SetDefault (tree st1) p IO_DATA_TYPE_NUMERIC s\<rparr>"
  note d = default_steps [OF f nodef set1_def]
  have one: "io_SetNumericDefault st path d1 = set1"
    using f nodef ty
    by (simp add: io_SetNumericDefault_def resTree_GetDataType_def resTree_HasDefault_def
        set1_def s_def)
  have two: "io_SetNumericDefault set1 path d2 = set1"
    using d(1) d(3) d(4) ty by (simp add: io_SetNumericDefault_def resTree_GetDataType_def)
  have ts: "io_GetTimestamp set1 path ts0 = (set1, LE_OK, Finite 0)"
    if "currentValue (tree st1 p) = None"
    using d(1) d(5) [OF that]
    by (simp add: io_GetTimestamp_def dataSample_GetTimestamp_def s_def
        dataSample_CreateNumeric_def)
  have gt: "io_GetNumeric set1 path ts0 d0 = Inr (set1, LE_OK, ts0, d1)"
    if "currentValue (tree st1 p) = None"
    using d(1) d(3) d(5) [OF that] ty
    by (simp add: io_GetNumeric_def GetCurrentValue_def resTree_GetDataType_def
        dataSample_GetNumeric_def s_def dataSample_CreateNumeric_def)
  from d(2) d(5) ts gt show ?thesis
    unfolding Let_def one two s_def by simp
qed

lemma SetStringDefault_twice:
  assumes f: "FindResource st path = (st1, Some p)"
    and nodef: "defaultValue (tree st1 p) = None"
    and ty: "dataType (tree st1 p) = IO_DATA_TYPE_STRING"
  shows "let st2 = io_SetStringDefault st path v1; st3 = io_SetStringDefault st2 path v2 in
      st3 = st2 \<and>
      defaultValue (tree st3 p) = Some (dataSample_CreateString (Finite 0) v1) \<and>
      (currentValue (tree st1 p) = None \<longrightarrow>
         resTree_GetCurrentValue (tree st3) p = Some (dataSample_CreateString (Finite 0) v1) \<and>
         io_GetTimestamp st3 path ts0 = (st3, LE_OK, Finite 0))"
proof -
  define s where "s = dataSample_CreateString (Finite 0) v1"
  define set1 where "set1 = st1\<lparr>tree := resTree_SetDefault (tree st1) p IO_DATA_TYPE_STRING s\<rparr>"
  note d = default_steps [OF f nodef set1_def]
  have one: "io_SetStringDefault st path v1 = set1"
    using f nodef ty
    by (simp add: io_SetStringDefault_def resTree_GetDataType_def resTree_HasDefault_def
        set1_def s_def)
  have two: "io_SetStringDefault set1 path v2 = set1"
    using d(1) d(3) d(4) ty by (simp add: io_SetStringDefault_def resTree_GetDataType_def)
  have ts: "io_GetTimestamp set1 path ts0 = (set1, LE_OK, Finite 0)"
    if "currentValue (tree st1 p) = None"
    using d(1) d(5) [OF that]
    by (simp add: io_GetTimestamp_def dataSample_GetTimestamp_def s_def
        dataSample_CreateString_def)
  from d(2) d(5) ts show ?thesis
    unfolding Let_def one two s_def by simp
qed

lemma SetJsonDefault_twice:
  assumes f: "FindResource st path = (st1, Some p)"
    and nodef: "defaultValue (tree st1 p) = None"
    and ty: "dataType (tree st1 p) = IO_DATA_TYPE_JSON"
  shows "let st2 = io_SetJsonDefault st path v1; st3 = io_SetJsonDefault st2 path v2 in
      st3 = st2 \<and>
      defaultValue (tree st3 p) = Some (dataSample_CreateJson (Finite 0) v1) \<and>
      (currentValue (tree st1 p) = None \<longrightarrow>
         resTree_GetCurrentValue (tree st3) p = Some (dataSample_CreateJson (Finite 0) v1) \<and>
         io_GetTimestamp st3 path ts0 = (st3, LE_OK, Finite 0))"
proof -
  define s where "s = dataSample_CreateJson (Finite 0) v1"
  define set1 where "set1 = st1\<lparr>tree := resTree_SetDefault (tree st1) p IO_DATA_TYPE_JSON s\<rparr>"
  note d = default_steps [OF f nodef set1_def]
  have one: "io_SetJsonDefault st path v1 = set1"
    using f nodef ty
    by (simp add: io_SetJsonDefault_def resTree_GetDataType_def resTree_HasDefault_def
        set1_def s_def)
  have two: "io_SetJsonDefault set1 path v2 = set1"
    using d(1) d(3) d(4) ty by (simp add: io_SetJsonDefault_def resTree_GetDataType_def)
  have ts: "io_GetTimestamp set1 path ts0 = (set1, LE_OK, Finite 0)"
    if "currentValue (tree st1 p) = None"
    using d(1) d(5) [OF that]
    by (simp add: io_GetTimestamp_def dataSample_GetTimestamp_def s_def
        dataSample_CreateJson_def)
  from d(2) d(5) ts show ?thesis
    unfolding Let_def one two s_def by simp
qed

section \<open>Text copies, the JSON projection and the getters\<close>

text \<open>None of the typed getters of the I/O service touches its timestamp out-parameter.\<close>

lemma le_utf8_Copy_result:
  "le_utf8_Copy dest src n =
     (if 0 < n \<and> length src < n then (LE_OK, src)
      else (LE_OVERFLOW, if n = 0 then dest else utf8_truncate (n - 1) src))"
  by (simp add: le_utf8_Copy_def)

lemma jsonProjection_defined:
  "payloadKind (payload s) = dt \<Longrightarrow> \<exists>txt. jsonProjection fmt dt s = Some txt"
  by (cases "payload s")
     (auto simp: jsonProjection_def dataSample_GetBoolean_def dataSample_GetNumeric_def
        dataSample_GetString_def dataSample_GetJson_def)

lemma jsonProjection_Json:
  "jsonProjection fmt IO_DATA_TYPE_JSON s = dataSample_GetJson s"
  by (simp add: jsonProjection_def)

lemma query_GetJson_result:
  assumes "resTree_FindEntryAtAbsolutePath (tree st) path = Some p"
    and "resTree_IsResource (tree st) p"
    and "resTree_GetCurrentValue (tree st) p = Some s"
  shows "query_GetJson fmt st path ts0 buf n =
     (case jsonProjection fmt (dataType (tree st p)) s of
        None \<Rightarrow> Inl WrongPayload
      | Some txt \<Rightarrow>
          Inr (fst (le_utf8_Copy buf txt n), timestamp s, snd (le_utf8_Copy buf txt n)))"
  using assms
  by (cases "dataType (tree st p) = IO_DATA_TYPE_JSON")
     (auto simp: query_GetJson_def Let_def resTree_GetDataType_def dataSample_ConvertToJson_def
        dataSample_GetTimestamp_def jsonProjection_Json split: option.splits prod.splits)

lemma io_getters_leave_timestamp:
  "io_GetBoolean st path ts0 b0 = Inr (st', r, ts', b') \<Longrightarrow> ts' = ts0"
  "io_GetNumeric st path ts0 d0 = Inr (st', r, ts', d') \<Longrightarrow> ts' = ts0"
  "io_GetString st path ts0 buf n = Inr (st', r, ts', buf') \<Longrightarrow> ts' = ts0"
  "io_GetJson fmt st path ts0 buf n = Inr (st', r, ts', buf') \<Longrightarrow> ts' = ts0"
  by (auto simp: io_GetBoolean_def io_GetNumeric_def io_GetString_def io_GetJson_def
      split: prod.splits option.splits sum.splits)

section \<open>Evaluating the example states\<close>

lemmas example_defs =
  exampleHub_def exampleTree_def boundHub_def pushedHub_def newEntry_def noEntry_def
  resTree_FindEntry_def resTree_GetRoot_def parsePath_def resTree_GetEntryType_def
  resTree_GetEntry_def GetClientNamespace_def

lemma exampleHub_namespace:
  "GetClientNamespace exampleHub = (boundHub, Some [''app'', ''sensor''])"
  by (simp add: example_defs)

section \<open>The claims\<close>

text \<open>
  C1. The aggregates of an Observation with numeric samples in range: the claim asks for
  the minimum, maximum, mean and population standard deviation. The four functions
  return NaN whatever the buffer holds: on the Observation \<^verbatim>\<open>/obs/o\<close> with the numeric
  samples 10, 20, 30 and start time 0, each of them returns NaN.
\<close>

theorem aggregates_return_NaN:
  "FindObservation exampleHub ''/obs/o'' = Some [''obs'', ''o''] \<and>
   map payload (samples (tree exampleHub [''obs'', ''o''])) =
     [VNumeric (Finite 10), VNumeric (Finite 20), VNumeric (Finite 30)] \<and>
   query_GetMin exampleHub ''/obs/o'' (Finite 0) = NaN \<and>
   query_GetMax exampleHub ''/obs/o'' (Finite 0) = NaN \<and>
   query_GetMean exampleHub ''/obs/o'' (Finite 0) = NaN \<and>
   query_GetStdDev exampleHub ''/obs/o'' (Finite 0) = NaN"
  by (simp add: FindObservation_def query_GetMin_def query_GetMax_def query_GetMean_def
      query_GetStdDev_def dataSample_CreateNumeric_def example_defs)

text \<open>
  C2. Push-then-get through the I/O service: after \<^verbatim>\<open>io_PushNumeric\<close> of the value 21.5
  with timestamp 1700000000 to the numeric Input \<^verbatim>\<open>temp\<close>, \<^verbatim>\<open>io_GetNumeric\<close> returns
  \<^verbatim>\<open>LE_OK\<close> and writes the value 21.5, but leaves its timestamp out-parameter as the
  caller had it (here -1): the function never assigns \<^verbatim>\<open>*timestampPtr\<close>. The sample
  itself carries the pushed timestamp, as \<^verbatim>\<open>io_GetTimestamp\<close> and the query service's
  \<^verbatim>\<open>query_GetNumeric\<close> show on the same state.
\<close>

theorem push_then_get_timestamp_not_written:
  "io_PushNumeric exampleHub ''temp'' (Finite 1700000000) (Finite 21.5) = Inr pushedHub \<and>
   io_GetNumeric pushedHub ''temp'' (Finite (- 1)) NaN
     = Inr (pushedHub, LE_OK, Finite (- 1), Finite 21.5) \<and>
   io_GetTimestamp pushedHub ''temp'' (Finite (- 1)) = (pushedHub, LE_OK, Finite 1700000000) \<and>
   query_GetNumeric pushedHub ''/app/sensor/temp'' (Finite (- 1)) NaN
     = Inr (LE_OK, Finite 1700000000, Finite 21.5)"
proof -
  have e0: "tree boundHub [''app'', ''sensor'', ''temp'']
      = newEntry ADMIN_ENTRY_TYPE_INPUT IO_DATA_TYPE_NUMERIC ''degC''"
    by (simp add: boundHub_def exampleHub_def exampleTree_def)
  have f0: "FindResource exampleHub ''temp'' = (boundHub, Some [''app'', ''sensor'', ''temp''])"
    unfolding FindResource_eq [OF exampleHub_namespace]
    by (simp add: resTree_FindEntry_def parsePath_def resTree_GetEntryType_def e0)
  have push: "io_PushNumeric exampleHub ''temp'' (Finite 1700000000) (Finite 21.5) = Inr pushedHub"
    unfolding io_PushNumeric_def f0
    by (simp add: resTree_Push_def Let_def e0 newEntry_def pushedHub_def stampSample_def
        double_is_zero_def dataSample_CreateNumeric_def tempSample_def)
  have e: "tree pushedHub [''app'', ''sensor'', ''temp''] =
      (newEntry ADMIN_ENTRY_TYPE_INPUT IO_DATA_TYPE_NUMERIC ''degC'')
        \<lparr>currentValue := Some tempSample\<rparr>"
    by (simp add: pushedHub_def)
  have ns: "GetClientNamespace pushedHub = (pushedHub, Some [''app'', ''sensor''])"
    by (rule GetClientNamespace_cached) (simp add: pushedHub_def boundHub_def)
  have f: "FindResource pushedHub ''temp'' = (pushedHub, Some [''app'', ''sensor'', ''temp''])"
    unfolding FindResource_eq [OF ns]
    by (simp add: resTree_FindEntry_def parsePath_def resTree_GetEntryType_def e)
  have cur: "resTree_GetCurrentValue (tree pushedHub) [''app'', ''sensor'', ''temp'']
      = Some tempSample"
    by (simp add: resTree_GetCurrentValue_def e)
  have dt: "resTree_GetDataType (tree pushedHub) [''app'', ''sensor'', ''temp'']
      = IO_DATA_TYPE_NUMERIC"
    by (simp add: resTree_GetDataType_def e newEntry_def)
  have v: "dataSample_GetNumeric tempSample = Some (Finite 21.5)"
    by (simp add: dataSample_GetNumeric_def tempSample_def dataSample_CreateNumeric_def)
  have t: "dataSample_GetTimestamp tempSample = Finite 1700000000"
    by (simp add: dataSample_GetTimestamp_def tempSample_def dataSample_CreateNumeric_def)
  have get: "io_GetNumeric pushedHub ''temp'' (Finite (- 1)) NaN
     = Inr (pushedHub, LE_OK, Finite (- 1), Finite 21.5)"
    unfolding io_GetNumeric_def f by (simp add: GetCurrentValue_def dt cur v)
  have gts: "io_GetTimestamp pushedHub ''temp'' (Finite (- 1))
      = (pushedHub, LE_OK, Finite 1700000000)"
    unfolding io_GetTimestamp_def f by (simp add: cur t)
  have abs: "resTree_FindEntryAtAbsolutePath (tree pushedHub) ''/app/sensor/temp''
      = Some [''app'', ''sensor'', ''temp'']"
    by (simp add: resTree_FindEntryAtAbsolutePath_def resTree_FindEntry_def resTree_GetRoot_def
        parsePath_def e)
  have isres: "resTree_IsResource (tree pushedHub) [''app'', ''sensor'', ''temp'']"
    by (simp add: resTree_IsResource_def e)
  have q: "query_GetNumeric pushedHub ''/app/sensor/temp'' (Finite (- 1)) NaN
     = Inr (LE_OK, Finite 1700000000, Finite 21.5)"
    unfolding query_GetNumeric_def abs by (simp add: isres cur dt v t)
  from push get gts q show ?thesis by simp
qed

text \<open>
  C3. If the path within the client's namespace holds an Input, an Output or an
  Observation, then \<^verbatim>\<open>io_CreateInput\<close> with a conflicting role or a different data type
  or units returns \<^verbatim>\<open>LE_DUPLICATE\<close>, and so does \<^verbatim>\<open>io_CreateOutput\<close>; the entry (role,
  data type, units, current value, default) is the one that was there before the call.
  The state returned is the state after the client's namespace was resolved.
\<close>

theorem create_conflict_Duplicate:
  assumes ns: "GetClientNamespace st = (st1, Some ns)"
    and found: "resTree_FindEntry (tree st1) (Some ns) path = Some p"
    and role: "entryType (tree st1 p) = ADMIN_ENTRY_TYPE_INPUT \<or>
               entryType (tree st1 p) = ADMIN_ENTRY_TYPE_OUTPUT \<or>
               entryType (tree st1 p) = ADMIN_ENTRY_TYPE_OBSERVATION"
  shows "tree st1 p = tree st p \<and>
    (entryType (tree st p) \<noteq> ADMIN_ENTRY_TYPE_INPUT \<or> dataType (tree st p) \<noteq> dt \<or>
       units (tree st p) \<noteq> u
     \<longrightarrow> io_CreateInput st path dt u = Inr (st1, LE_DUPLICATE)) \<and>
    (entryType (tree st p) \<noteq> ADMIN_ENTRY_TYPE_OUTPUT \<or> dataType (tree st p) \<noteq> dt \<or>
       units (tree st p) \<noteq> u
     \<longrightarrow> io_CreateOutput st path dt u = Inr (st1, LE_DUPLICATE))"
proof -
  from role have "entryType (tree st1 p) \<noteq> ADMIN_ENTRY_TYPE_NAMESPACE" by auto
  from GetClientNamespace_keeps_entries [OF ns this] have same: "tree st1 p = tree st p" .
  have inp: "io_CreateInput st path dt u = Inr (st1, LE_DUPLICATE)"
    if "entryType (tree st1 p) \<noteq> ADMIN_ENTRY_TYPE_INPUT \<or> dataType (tree st1 p) \<noteq> dt \<or>
       units (tree st1 p) \<noteq> u"
    using that role
    by (auto simp: io_CreateInput_def ns found resTree_GetEntryType_def resTree_GetDataType_def
        resTree_GetUnits_def)
  have outp: "io_CreateOutput st path dt u = Inr (st1, LE_DUPLICATE)"
    if "entryType (tree st1 p) \<noteq> ADMIN_ENTRY_TYPE_OUTPUT \<or> dataType (tree st1 p) \<noteq> dt \<or>
       units (tree st1 p) \<noteq> u"
    using that role
    by (auto simp: io_CreateOutput_def ns found resTree_GetEntryType_def resTree_GetDataType_def
        resTree_GetUnits_def)
  from same inp outp show ?thesis by simp
qed

text \<open>The theorem at concrete inputs of the example hub.\<close>

theorem create_conflict_Duplicate_witness:
  "tree boundHub [''app'', ''sensor'', ''temp''] = tree exampleHub [''app'', ''sensor'', ''temp''] \<and>
   entryType (tree exampleHub [''app'', ''sensor'', ''temp'']) = ADMIN_ENTRY_TYPE_INPUT \<and>
   io_CreateInput exampleHub ''temp'' IO_DATA_TYPE_NUMERIC ''m'' = Inr (boundHub, LE_DUPLICATE) \<and>
   io_CreateOutput exampleHub ''temp'' IO_DATA_TYPE_NUMERIC ''degC'' = Inr (boundHub, LE_DUPLICATE)"
proof -
  have found: "resTree_FindEntry (tree boundHub) (Some [''app'', ''sensor'']) ''temp'' =
      Some [''app'', ''sensor'', ''temp'']"
    by (simp add: example_defs)
  have role: "entryType (tree boundHub [''app'', ''sensor'', ''temp'']) = ADMIN_ENTRY_TYPE_INPUT \<or>
      entryType (tree boundHub [''app'', ''sensor'', ''temp'']) = ADMIN_ENTRY_TYPE_OUTPUT \<or>
      entryType (tree boundHub [''app'', ''sensor'', ''temp'']) = ADMIN_ENTRY_TYPE_OBSERVATION"
    by (simp add: example_defs)
  have e: "tree exampleHub [''app'', ''sensor'', ''temp''] =
      newEntry ADMIN_ENTRY_TYPE_INPUT IO_DATA_TYPE_NUMERIC ''degC''"
    by (simp add: exampleHub_def exampleTree_def)
  from create_conflict_Duplicate [OF exampleHub_namespace found role, of IO_DATA_TYPE_NUMERIC "''m''"]
       create_conflict_Duplicate [OF exampleHub_namespace found role, of IO_DATA_TYPE_NUMERIC "''degC''"]
  show ?thesis
    by (simp add: e newEntry_def)
qed

text \<open>
  C4. For an existing Observation, a \<open>startAfter\<close> that is zero or negative is rejected
  as a caller-contract violation: the client is killed, no buffer data is written, and
  nothing else changes. A negative value is stopped by the guard of
  \<^verbatim>\<open>query_ReadBufferJson\<close> itself; zero passes that guard and is rejected by the read
  of the resource tree. For \<open>startAfter\<close> NaN the whole buffer is read: the read
  writes all the samples of the Observation's buffer, in order.
\<close>

theorem ReadBufferJson_startAfter:
  assumes "FindObservation st obsPath = Some p"
  shows
    "(double_less startAfter (Finite 0) \<or> startAfter = Finite 0 \<longrightarrow>
        query_ReadBufferJson st obsPath startAfter outputFile handlerPtr contextPtr
          = (st\<lparr>clientKilled := True\<rparr>, LE_OK)) \<and>
     (r \<le> 0 \<longrightarrow>
        query_ReadBufferJson st obsPath (Finite r) outputFile handlerPtr contextPtr
          = (st\<lparr>clientKilled := True\<rparr>, LE_OK)) \<and>
     bufferReads (st\<lparr>clientKilled := True\<rparr>) = bufferReads st \<and>
     query_ReadBufferJson st obsPath NaN outputFile handlerPtr contextPtr
       = (st\<lparr>bufferReads := bufferReads st @
            [\<lparr>readEntry = p, readStartAfter = NaN, readOutputFile = outputFile,
              readHandler = handlerPtr, readContext = contextPtr,
              readSamples = samples (tree st p)\<rparr>]\<rparr>, LE_OK)"
proof -
  have neg: "query_ReadBufferJson st obsPath startAfter outputFile handlerPtr contextPtr
          = (st\<lparr>clientKilled := True\<rparr>, LE_OK)"
    if "double_less startAfter (Finite 0) \<or> startAfter = Finite 0"
    using that assms
    by (cases startAfter) (auto simp: query_ReadBufferJson_def resTree_ReadBufferJson_def)
  have fin: "query_ReadBufferJson st obsPath (Finite r) outputFile handlerPtr contextPtr
          = (st\<lparr>clientKilled := True\<rparr>, LE_OK)" if "r \<le> 0"
    using that assms
    by (simp add: query_ReadBufferJson_def resTree_ReadBufferJson_def)
  have nan: "query_ReadBufferJson st obsPath NaN outputFile handlerPtr contextPtr
       = (st\<lparr>bufferReads := bufferReads st @
            [\<lparr>readEntry = p, readStartAfter = NaN, readOutputFile = outputFile,
              readHandler = handlerPtr, readContext = contextPtr,
              readSamples = samples (tree st p)\<rparr>]\<rparr>, LE_OK)"
    using assms by (simp add: query_ReadBufferJson_def resTree_ReadBufferJson_def)
  from neg fin nan show ?thesis by simp
qed

text \<open>The theorem at concrete inputs of the example hub.\<close>

theorem ReadBufferJson_startAfter_witness:
  "FindObservation exampleHub ''/obs/o'' = Some [''obs'', ''o''] \<and>
   query_ReadBufferJson exampleHub ''/obs/o'' (Finite 0) 1 0 0
     = (exampleHub\<lparr>clientKilled := True\<rparr>, LE_OK) \<and>
   query_ReadBufferJson exampleHub ''/obs/o'' (Finite (- 5)) 1 0 0
     = (exampleHub\<lparr>clientKilled := True\<rparr>, LE_OK) \<and>
   bufferReads (exampleHub\<lparr>clientKilled := True\<rparr>) = [] \<and>
   query_ReadBufferJson exampleHub ''/obs/o'' NaN 1 0 0
     = (exampleHub\<lparr>bufferReads := bufferReads exampleHub @
          [\<lparr>readEntry = [''obs'', ''o''], readStartAfter = NaN, readOutputFile = 1,
            readHandler = 0, readContext = 0,
            readSamples = samples (tree exampleHub [''obs'', ''o''])\<rparr>]\<rparr>, LE_OK) \<and>
   map payload (samples (tree exampleHub [''obs'', ''o''])) =
     [VNumeric (Finite 10), VNumeric (Finite 20), VNumeric (Finite 30)]"
proof -
  have f: "FindObservation exampleHub ''/obs/o'' = Some [''obs'', ''o'']"
    by (simp add: FindObservation_def example_defs)
  have b: "bufferReads exampleHub = []"
    by (simp add: exampleHub_def)
  have m: "map payload (samples (tree exampleHub [''obs'', ''o''])) =
     [VNumeric (Finite 10), VNumeric (Finite 20), VNumeric (Finite 30)]"
    by (simp add: exampleHub_def exampleTree_def dataSample_CreateNumeric_def)
  from f b m
    ReadBufferJson_startAfter [OF f, of "Finite 0" 1 0 0 0]
    ReadBufferJson_startAfter [OF f, of "Finite (- 5)" 1 0 0 "- 5"]
  show ?thesis by simp
qed

text \<open>
  C5. For an Input or Output of Boolean type with no default, setting the default to
  \<open>b1\<close> and then to \<open>b2\<close> leaves the default \<open>b1\<close>: the second call changes
  nothing. While the resource has no current value, reading the current value gives the
  sample with value \<open>b1\<close> and timestamp 0.0: \<^verbatim>\<open>io_GetTimestamp\<close> returns 0.0 and
  \<^verbatim>\<open>io_GetBoolean\<close> returns \<open>b1\<close>. The same holds for the numeric, string and JSON
  setters on a resource of their type.
\<close>

theorem default_is_write_once:
  assumes "FindResource st path = (st1, Some p)"
    and "defaultValue (tree st1 p) = None"
  shows
    "(dataType (tree st1 p) = IO_DATA_TYPE_BOOLEAN \<longrightarrow>
       (let st2 = io_SetBooleanDefault st path b1; st3 = io_SetBooleanDefault st2 path b2 in
        st3 = st2 \<and>
        defaultValue (tree st3 p) = Some (dataSample_CreateBoolean (Finite 0) b1) \<and>
        (currentValue (tree st1 p) = None \<longrightarrow>
           resTree_GetCurrentValue (tree st3) p = Some (dataSample_CreateBoolean (Finite 0) b1) \<and>
           io_GetTimestamp st3 path ts0 = (st3, LE_OK, Finite 0) \<and>
           io_GetBoolean st3 path ts0 b0 = Inr (st3, LE_OK, ts0, b1)))) \<and>
     (dataType (tree st1 p) = IO_DATA_TYPE_NUMERIC \<longrightarrow>
       (let st2 = io_SetNumericDefault st path d1; st3 = io_SetNumericDefault st2 path d2 in
        st3 = st2 \<and>
        defaultValue (tree st3 p) = Some (dataSample_CreateNumeric (Finite 0) d1) \<and>
        (currentValue (tree st1 p) = None \<longrightarrow>
           resTree_GetCurrentValue (tree st3) p = Some (dataSample_CreateNumeric (Finite 0) d1) \<and>
           io_GetTimestamp st3 path ts0 = (st3, LE_OK, Finite 0) \<and>
           io_GetNumeric st3 path ts0 d0 = Inr (st3, LE_OK, ts0, d1)))) \<and>
     (dataType (tree st1 p) = IO_DATA_TYPE_STRING \<longrightarrow>
       (let st2 = io_SetStringDefault st path v1; st3 = io_SetStringDefault st2 path v2 in
        st3 = st2 \<and>
        defaultValue (tree st3 p) = Some (dataSample_CreateString (Finite 0) v1) \<and>
        (currentValue (tree st1 p) = None \<longrightarrow>
           resTree_GetCurrentValue (tree st3) p = Some (dataSample_CreateString (Finite 0) v1) \<and>
           io_GetTimestamp st3 path ts0 = (st3, LE_OK, Finite 0)))) \<and>
     (dataType (tree st1 p) = IO_DATA_TYPE_JSON \<longrightarrow>
       (let st2 = io_SetJsonDefault st path v1; st3 = io_SetJsonDefault st2 path v2 in
        st3 = st2 \<and>
        defaultValue (tree st3 p) = Some (dataSample_CreateJson (Finite 0) v1) \<and>
        (currentValue (tree st1 p) = None \<longrightarrow>
           resTree_GetCurrentValue (tree st3) p = Some (dataSample_CreateJson (Finite 0) v1) \<and>
           io_GetTimestamp st3 path ts0 = (st3, LE_OK, Finite 0))))"
  using SetBooleanDefault_twice [OF assms, of b1 b2 ts0 b0]
    SetNumericDefault_twice [OF assms, of d1 d2 ts0 d0]
    SetStringDefault_twice [OF assms, of v1 v2 ts0]
    SetJsonDefault_twice [OF assms, of v1 v2 ts0]
  by blast

text \<open>The theorem at concrete inputs of the example hub.\<close>

theorem default_is_write_once_witness:
  "io_SetBooleanDefault (io_SetBooleanDefault exampleHub ''valve'' True) ''valve'' False
     = io_SetBooleanDefault exampleHub ''valve'' True \<and>
   defaultValue
     (tree (io_SetBooleanDefault (io_SetBooleanDefault exampleHub ''valve'' True) ''valve'' False)
        [''app'', ''sensor'', ''valve''])
     = Some (dataSample_CreateBoolean (Finite 0) True) \<and>
   resTree_GetCurrentValue
     (tree (io_SetBooleanDefault (io_SetBooleanDefault exampleHub ''valve'' True) ''valve'' False))
        [''app'', ''sensor'', ''valve'']
     = Some (dataSample_CreateBoolean (Finite 0) True) \<and>
   io_GetTimestamp
     (io_SetBooleanDefault (io_SetBooleanDefault exampleHub ''valve'' True) ''valve'' False)
     ''valve'' NaN
     = (io_SetBooleanDefault (io_SetBooleanDefault exampleHub ''valve'' True) ''valve'' False,
        LE_OK, Finite 0) \<and>
   io_GetBoolean
     (io_SetBooleanDefault (io_SetBooleanDefault exampleHub ''valve'' True) ''valve'' False)
     ''valve'' NaN False
     = Inr (io_SetBooleanDefault (io_SetBooleanDefault exampleHub ''valve'' True) ''valve'' False,
        LE_OK, NaN, True)"
proof -
  have e: "tree boundHub [''app'', ''sensor'', ''valve'']
      = newEntry ADMIN_ENTRY_TYPE_OUTPUT IO_DATA_TYPE_BOOLEAN []"
    by (simp add: boundHub_def exampleHub_def exampleTree_def)
  have f: "FindResource exampleHub ''valve'' = (boundHub, Some [''app'', ''sensor'', ''valve''])"
    unfolding FindResource_eq [OF exampleHub_namespace]
    by (simp add: resTree_FindEntry_def parsePath_def resTree_GetEntryType_def e)
  have nodef: "defaultValue (tree boundHub [''app'', ''sensor'', ''valve'']) = None"
    by (simp add: e newEntry_def)
  have ty: "dataType (tree boundHub [''app'', ''sensor'', ''valve'']) = IO_DATA_TYPE_BOOLEAN"
    by (simp add: e newEntry_def)
  have cur: "currentValue (tree boundHub [''app'', ''sensor'', ''valve'']) = None"
    by (simp add: e newEntry_def)
  from default_is_write_once [OF f nodef, of True False NaN False, unfolded Let_def] ty cur
  show ?thesis
    by blast
qed






text \<open>
  C8. For a resource that has a current value, \<^verbatim>\<open>query_GetJson\<close> never returns
  \<^verbatim>\<open>LE_FORMAT_ERROR\<close>, whatever the data type. When the current sample is of the
  resource's data type and the caller's buffer has a size, the JSON projection of the
  sample exists, the timestamp is written, and the result is \<^verbatim>\<open>LE_OK\<close> with the
  projection in the buffer if it fits, \<^verbatim>\<open>LE_OVERFLOW\<close> with a truncated projection if
  the buffer is too small.
\<close>

theorem query_GetJson_never_FormatError:
  assumes "resTree_FindEntryAtAbsolutePath (tree st) path = Some p"
    and "resTree_IsResource (tree st) p"
    and "resTree_GetCurrentValue (tree st) p = Some s"
  shows "(\<forall>ts v. query_GetJson fmt st path ts0 buf n \<noteq> Inr (LE_FORMAT_ERROR, ts, v)) \<and>
     (payloadKind (payload s) = dataType (tree st p) \<and> 0 < n \<longrightarrow>
        (\<exists>js. jsonProjection fmt (dataType (tree st p)) s = Some js \<and>
           query_GetJson fmt st path ts0 buf n =
             (if length js < n then Inr (LE_OK, timestamp s, js)
              else Inr (LE_OVERFLOW, timestamp s, utf8_truncate (n - 1) js))))"
proof -
  note r = query_GetJson_result [OF assms, of fmt ts0 buf n]
  have a: "\<forall>ts v. query_GetJson fmt st path ts0 buf n \<noteq> Inr (LE_FORMAT_ERROR, ts, v)"
    unfolding r by (simp add: le_utf8_Copy_result split: option.splits)
  have b: "\<exists>js. jsonProjection fmt (dataType (tree st p)) s = Some js \<and>
           query_GetJson fmt st path ts0 buf n =
             (if length js < n then Inr (LE_OK, timestamp s, js)
              else Inr (LE_OVERFLOW, timestamp s, utf8_truncate (n - 1) js))"
    if "payloadKind (payload s) = dataType (tree st p)" and "0 < n"
  proof -
    from jsonProjection_defined [OF that(1), of fmt]
    obtain js where t: "jsonProjection fmt (dataType (tree st p)) s = Some js" by blast
    show ?thesis
      unfolding r t using that(2) by (simp add: le_utf8_Copy_result)
  qed
  from a b show ?thesis by blast
qed

text \<open>The theorem at concrete inputs of the example hub.\<close>

theorem query_GetJson_never_FormatError_witness:
  "query_GetJson (\<lambda>d. ''21.5'') pushedHub ''/app/sensor/temp'' NaN [] 16
     = Inr (LE_OK, Finite 1700000000, ''21.5'') \<and>
   query_GetJson (\<lambda>d. ''21.5'') pushedHub ''/app/sensor/temp'' NaN [] 3
     = Inr (LE_OVERFLOW, Finite 1700000000, ''21'') \<and>
   query_GetJson (\<lambda>d. ''21.5'') pushedHub ''/app/sensor/temp'' NaN [] 16
     \<noteq> Inr (LE_FORMAT_ERROR, NaN, [])"
proof -
  let ?s = "tempSample"
  have e: "tree pushedHub [''app'', ''sensor'', ''temp''] =
      (newEntry ADMIN_ENTRY_TYPE_INPUT IO_DATA_TYPE_NUMERIC ''degC'')\<lparr>currentValue := Some ?s\<rparr>"
    by (simp add: pushedHub_def)
  have h1: "resTree_FindEntryAtAbsolutePath (tree pushedHub) ''/app/sensor/temp''
      = Some [''app'', ''sensor'', ''temp'']"
    by (simp add: resTree_FindEntryAtAbsolutePath_def resTree_FindEntry_def resTree_GetRoot_def
        parsePath_def e)
  have h2: "resTree_IsResource (tree pushedHub) [''app'', ''sensor'', ''temp'']"
    by (simp add: resTree_IsResource_def e)
  have h3: "resTree_GetCurrentValue (tree pushedHub) [''app'', ''sensor'', ''temp''] = Some ?s"
    by (simp add: resTree_GetCurrentValue_def e)
  have p: "jsonProjection (\<lambda>d. ''21.5'') IO_DATA_TYPE_NUMERIC ?s = Some ''21.5''"
    by (simp add: jsonProjection_def dataSample_GetNumeric_def dataSample_CreateNumeric_def
        tempSample_def)
  have k: "payloadKind (payload ?s) = dataType (tree pushedHub [''app'', ''sensor'', ''temp''])"
    by (simp add: e newEntry_def dataSample_CreateNumeric_def tempSample_def)
  have d: "dataType (tree pushedHub [''app'', ''sensor'', ''temp'']) = IO_DATA_TYPE_NUMERIC"
    by (simp add: e newEntry_def)
  have tr: "utf8_truncate 2 ''21.5'' = ''21''"
    by (simp add: utf8_truncate_def utf8_is_continuation_def)
  have ts: "timestamp ?s = Finite 1700000000"
    by (simp add: dataSample_CreateNumeric_def tempSample_def)
  from query_GetJson_never_FormatError [OF h1 h2 h3, of "\<lambda>d. ''21.5''" NaN "[]" 16]
       query_GetJson_never_FormatError [OF h1 h2 h3, of "\<lambda>d. ''21.5''" NaN "[]" 3]
  show ?thesis
    unfolding d using k [unfolded d] by (simp add: p tr ts)
qed

text \<open>
  C9. In the buffer and aggregate operations of the query service, an absolute path that
  does not begin with \<^verbatim>\<open>/obs/\<close> is not found, whether or not an entry exists there, and
  a path that resolves to an entry that is not an Observation is not found either:
  \<^verbatim>\<open>query_ReadBufferJson\<close> returns \<^verbatim>\<open>LE_NOT_FOUND\<close> and changes nothing, and the
  aggregates return NaN.
\<close>

theorem query_not_found_unless_Observation:
  assumes "(path \<noteq> [] \<and> hd path = CHR ''/'' \<and> take 5 path \<noteq> ''/obs/'') \<or>
     (take 5 path = ''/obs/'' \<and>
        resTree_FindEntry (tree st) resTree_GetRoot path = Some p \<and>
        entryType (tree st p) \<noteq> ADMIN_ENTRY_TYPE_OBSERVATION) \<or>
     (\<not> (path \<noteq> [] \<and> hd path = CHR ''/'') \<and>
        resTree_FindEntry (tree st) (resTree_FindEntry (tree st) resTree_GetRoot ''obs'') path
          = Some p \<and>
        entryType (tree st p) \<noteq> ADMIN_ENTRY_TYPE_OBSERVATION)"
  shows "FindObservation st path = None \<and>
     query_ReadBufferJson st path startAfter outputFile handlerPtr contextPtr = (st, LE_NOT_FOUND) \<and>
     query_GetMin st path startTime = NaN \<and> query_GetMax st path startTime = NaN \<and>
     query_GetMean st path startTime = NaN \<and> query_GetStdDev st path startTime = NaN"
proof -
  have none: "FindObservation st path = None"
    using assms
  proof (elim disjE conjE)
    assume "path \<noteq> []" "hd path = CHR ''/''" "take 5 path \<noteq> ''/obs/''"
    then show ?thesis by (simp add: FindObservation_def)
  next
    assume "take 5 path = ''/obs/''"
      "resTree_FindEntry (tree st) resTree_GetRoot path = Some p"
      "entryType (tree st p) \<noteq> ADMIN_ENTRY_TYPE_OBSERVATION"
    then show ?thesis by (simp add: FindObservation_def resTree_GetEntryType_def)
  next
    assume a: "\<not> (path \<noteq> [] \<and> hd path = CHR ''/'')"
      "resTree_FindEntry (tree st) (resTree_FindEntry (tree st) resTree_GetRoot ''obs'') path
          = Some p"
      "entryType (tree st p) \<noteq> ADMIN_ENTRY_TYPE_OBSERVATION"
    from a(1) have "take 5 path \<noteq> ''/obs/''"
      by (cases path) auto
    with a show ?thesis
      by (simp add: FindObservation_def Let_def resTree_GetEntryType_def)
  qed
  then show ?thesis
    by (simp add: query_ReadBufferJson_def query_GetMin_def query_GetMax_def query_GetMean_def
        query_GetStdDev_def)
qed

text \<open>The theorem at concrete inputs of the example hub.\<close>

theorem query_not_found_unless_Observation_witness:
  "resTree_FindEntryAtAbsolutePath (tree exampleHub) ''/app/sensor/temp''
     = Some [''app'', ''sensor'', ''temp''] \<and>
   query_ReadBufferJson exampleHub ''/app/sensor/temp'' NaN 1 0 0 = (exampleHub, LE_NOT_FOUND) \<and>
   query_GetMin exampleHub ''/app/sensor/temp'' (Finite 0) = NaN \<and>
   resTree_FindEntry (tree exampleHub) resTree_GetRoot ''/obs/group'' = Some [''obs'', ''group''] \<and>
   query_ReadBufferJson exampleHub ''/obs/group'' NaN 1 0 0 = (exampleHub, LE_NOT_FOUND) \<and>
   query_GetMean exampleHub ''/obs/group'' (Finite 0) = NaN \<and>
   query_ReadBufferJson exampleHub ''group'' NaN 1 0 0 = (exampleHub, LE_NOT_FOUND) \<and>
   query_GetMax exampleHub ''group'' (Finite 0) = NaN"
proof -
  have abs: "resTree_FindEntryAtAbsolutePath (tree exampleHub) ''/app/sensor/temp''
     = Some [''app'', ''sensor'', ''temp'']"
    by (simp add: resTree_FindEntryAtAbsolutePath_def example_defs)
  have h1: "(''/app/sensor/temp'' \<noteq> [] \<and> hd ''/app/sensor/temp'' = CHR ''/'' \<and>
      take 5 ''/app/sensor/temp'' \<noteq> ''/obs/'') \<or>
     (take 5 ''/app/sensor/temp'' = ''/obs/'' \<and>
        resTree_FindEntry (tree exampleHub) resTree_GetRoot ''/app/sensor/temp'' = Some [] \<and>
        entryType (tree exampleHub []) \<noteq> ADMIN_ENTRY_TYPE_OBSERVATION) \<or>
     (\<not> (''/app/sensor/temp'' \<noteq> [] \<and> hd ''/app/sensor/temp'' = CHR ''/'') \<and>
        resTree_FindEntry (tree exampleHub)
          (resTree_FindEntry (tree exampleHub) resTree_GetRoot ''obs'') ''/app/sensor/temp''
          = Some [] \<and>
        entryType (tree exampleHub []) \<noteq> ADMIN_ENTRY_TYPE_OBSERVATION)"
    by simp
  have grp: "resTree_FindEntry (tree exampleHub) resTree_GetRoot ''/obs/group''
      = Some [''obs'', ''group'']"
    by (simp add: example_defs)
  have h2: "(''/obs/group'' \<noteq> [] \<and> hd ''/obs/group'' = CHR ''/'' \<and>
      take 5 ''/obs/group'' \<noteq> ''/obs/'') \<or>
     (take 5 ''/obs/group'' = ''/obs/'' \<and>
        resTree_FindEntry (tree exampleHub) resTree_GetRoot ''/obs/group''
          = Some [''obs'', ''group''] \<and>
        entryType (tree exampleHub [''obs'', ''group'']) \<noteq> ADMIN_ENTRY_TYPE_OBSERVATION) \<or>
     (\<not> (''/obs/group'' \<noteq> [] \<and> hd ''/obs/group'' = CHR ''/'') \<and>
        resTree_FindEntry (tree exampleHub)
          (resTree_FindEntry (tree exampleHub) resTree_GetRoot ''obs'') ''/obs/group''
          = Some [''obs'', ''group''] \<and>
        entryType (tree exampleHub [''obs'', ''group'']) \<noteq> ADMIN_ENTRY_TYPE_OBSERVATION)"
    by (simp add: example_defs)
  have h3: "(''group'' \<noteq> [] \<and> hd ''group'' = CHR ''/'' \<and> take 5 ''group'' \<noteq> ''/obs/'') \<or>
     (take 5 ''group'' = ''/obs/'' \<and>
        resTree_FindEntry (tree exampleHub) resTree_GetRoot ''group''
          = Some [''obs'', ''group''] \<and>
        entryType (tree exampleHub [''obs'', ''group'']) \<noteq> ADMIN_ENTRY_TYPE_OBSERVATION) \<or>
     (\<not> (''group'' \<noteq> [] \<and> hd ''group'' = CHR ''/'') \<and>
        resTree_FindEntry (tree exampleHub)
          (resTree_FindEntry (tree exampleHub) resTree_GetRoot ''obs'') ''group''
          = Some [''obs'', ''group''] \<and>
        entryType (tree exampleHub [''obs'', ''group'']) \<noteq> ADMIN_ENTRY_TYPE_OBSERVATION)"
    by (simp add: example_defs)
  from abs grp
    query_not_found_unless_Observation [OF h1, of NaN 1 0 0 "Finite 0"]
    query_not_found_unless_Observation [OF h2, of NaN 1 0 0 "Finite 0"]
    query_not_found_unless_Observation [OF h3, of NaN 1 0 0 "Finite 0"]
  show ?thesis by simp
qed

text \<open>
  C10. The I/O service treats a path whose entry is not an Input or an Output (a
  Namespace, a Placeholder, an Observation) as it treats a path with no entry: every
  \<^verbatim>\<open>io_Push*\<close> kills the client and pushes nothing, every \<^verbatim>\<open>io_Get*\<close> returns
  \<^verbatim>\<open>LE_NOT_FOUND\<close> and leaves its out-parameters alone, and \<^verbatim>\<open>io_DeleteResource\<close>
  deletes nothing. The state \<open>st1\<close> they leave is the one after the client's namespace
  was resolved: the tree differs from the one before at most by Namespace entries
  created where there was no entry, and nothing at all changes when the session has
  its namespace cached.
\<close>

theorem non_IO_entry_as_nonexistent:
  assumes ns: "GetClientNamespace st = (st1, nsRef)"
    and notIn: "resTree_GetEntryType (tree st1) (resTree_FindEntry (tree st1) nsRef path)
        \<noteq> ADMIN_ENTRY_TYPE_INPUT"
    and notOut: "resTree_GetEntryType (tree st1) (resTree_FindEntry (tree st1) nsRef path)
        \<noteq> ADMIN_ENTRY_TYPE_OUTPUT"
  shows
    "io_PushTrigger st path ts = Inr (st1\<lparr>clientKilled := True\<rparr>) \<and>
     io_PushBoolean st path ts b = Inr (st1\<lparr>clientKilled := True\<rparr>) \<and>
     io_PushNumeric st path ts d = Inr (st1\<lparr>clientKilled := True\<rparr>) \<and>
     io_PushString st path ts str = Inr (st1\<lparr>clientKilled := True\<rparr>) \<and>
     io_PushJson st path ts str = Inr (st1\<lparr>clientKilled := True\<rparr>) \<and>
     io_GetTimestamp st path ts0 = (st1, LE_NOT_FOUND, ts0) \<and>
     io_GetBoolean st path ts0 b0 = Inr (st1, LE_NOT_FOUND, ts0, b0) \<and>
     io_GetNumeric st path ts0 d0 = Inr (st1, LE_NOT_FOUND, ts0, d0) \<and>
     io_GetString st path ts0 buf n = Inr (st1, LE_NOT_FOUND, ts0, buf) \<and>
     io_GetJson fmt st path ts0 buf n = Inr (st1, LE_NOT_FOUND, ts0, buf) \<and>
     io_DeleteResource resTree_DeleteIO st path = st1 \<and>
     (\<forall>k. tree st1 k = tree st k \<or>
        (entryType (tree st k) = ADMIN_ENTRY_TYPE_NONE \<and>
         tree st1 k = newEntry ADMIN_ENTRY_TYPE_NAMESPACE IO_DATA_TYPE_TRIGGER [])) \<and>
     (sessionContextPtr st \<noteq> None \<longrightarrow> st1 = st)"
proof -
  have f: "FindResource st path = (st1, None)"
    unfolding FindResource_eq [OF ns] using notIn notOut by simp
  have t: "\<forall>k. tree st1 k = tree st k \<or>
        (entryType (tree st k) = ADMIN_ENTRY_TYPE_NONE \<and>
         tree st1 k = newEntry ADMIN_ENTRY_TYPE_NAMESPACE IO_DATA_TYPE_TRIGGER [])"
    using GetClientNamespace_tree [OF ns] by blast
  have c: "sessionContextPtr st \<noteq> None \<longrightarrow> st1 = st"
    using ns by (auto simp: GetClientNamespace_def)
  from f have "io_PushTrigger st path ts = Inr (st1\<lparr>clientKilled := True\<rparr>) \<and>
     io_PushBoolean st path ts b = Inr (st1\<lparr>clientKilled := True\<rparr>) \<and>
     io_PushNumeric st path ts d = Inr (st1\<lparr>clientKilled := True\<rparr>) \<and>
     io_PushString st path ts str = Inr (st1\<lparr>clientKilled := True\<rparr>) \<and>
     io_PushJson st path ts str = Inr (st1\<lparr>clientKilled := True\<rparr>) \<and>
     io_GetTimestamp st path ts0 = (st1, LE_NOT_FOUND, ts0) \<and>
     io_GetBoolean st path ts0 b0 = Inr (st1, LE_NOT_FOUND, ts0, b0) \<and>
     io_GetNumeric st path ts0 d0 = Inr (st1, LE_NOT_FOUND, ts0, d0) \<and>
     io_GetString st path ts0 buf n = Inr (st1, LE_NOT_FOUND, ts0, buf) \<and>
     io_GetJson fmt st path ts0 buf n = Inr (st1, LE_NOT_FOUND, ts0, buf) \<and>
     io_DeleteResource resTree_DeleteIO st path = st1"
    by (simp add: io_PushTrigger_def io_PushBoolean_def io_PushNumeric_def io_PushString_def
        io_PushJson_def io_GetTimestamp_def io_GetBoolean_def io_GetNumeric_def io_GetString_def
        io_GetJson_def io_DeleteResource_def)
  with t c show ?thesis by blast
qed

text \<open>The theorem at concrete inputs of the example hub.\<close>

theorem non_IO_entry_as_nonexistent_witness:
  "entryType (tree exampleHub [''app'', ''sensor'', ''pending'']) = ADMIN_ENTRY_TYPE_PLACEHOLDER \<and>
   io_PushNumeric exampleHub ''pending'' (Finite 5) (Finite 1)
     = Inr (boundHub\<lparr>clientKilled := True\<rparr>) \<and>
   io_GetNumeric exampleHub ''pending'' NaN NaN = Inr (boundHub, LE_NOT_FOUND, NaN, NaN) \<and>
   io_DeleteResource (\<lambda>t p. t(p := noEntry)) exampleHub ''pending'' = boundHub \<and>
   tree boundHub = tree exampleHub"
proof -
  have ty: "resTree_GetEntryType (tree boundHub)
      (resTree_FindEntry (tree boundHub) (Some [''app'', ''sensor'']) ''pending'')
      = ADMIN_ENTRY_TYPE_PLACEHOLDER"
    by (simp add: example_defs)
  have notIn: "resTree_GetEntryType (tree boundHub)
      (resTree_FindEntry (tree boundHub) (Some [''app'', ''sensor'']) ''pending'')
      \<noteq> ADMIN_ENTRY_TYPE_INPUT"
    unfolding ty by simp
  have notOut: "resTree_GetEntryType (tree boundHub)
      (resTree_FindEntry (tree boundHub) (Some [''app'', ''sensor'']) ''pending'')
      \<noteq> ADMIN_ENTRY_TYPE_OUTPUT"
    unfolding ty by simp
  have e: "entryType (tree exampleHub [''app'', ''sensor'', ''pending''])
      = ADMIN_ENTRY_TYPE_PLACEHOLDER"
    by (simp add: exampleHub_def exampleTree_def)
  have t: "tree boundHub = tree exampleHub"
    by (simp add: boundHub_def)
  from non_IO_entry_as_nonexistent [OF exampleHub_namespace notIn notOut,
      of "Finite 5" False "Finite 1" "[]" NaN False NaN "[]" 0 "\<lambda>d. []" "\<lambda>t p. t(p := noEntry)"]
    e t
  show ?thesis by simp
qed

end
